theory Spec2Isabelle
  imports Main "HOL-Library.Word"
begin

unbundle bit_operations_syntax

type_synonym byte = "8 word"
type_synonym uint32 = "32 word"

section \<open>SHA-256 (\<open>crypto/sha256.Sum256\<close>, FIPS 180-4)\<close>

text \<open>
  \<open>GenerateID\<close> hashes with \<open>sha256.Sum256\<close> of the Go standard library. The
  function is written out here as the standard defines it, on 32-bit words, so that the
  identifiers of concrete names can be computed.
\<close>

definition rotr :: "nat \<Rightarrow> uint32 \<Rightarrow> uint32" where
  "rotr n x = drop_bit n x OR push_bit (32 - n) x"

definition roundConstants :: "uint32 list" where
  "roundConstants = [
     1116352408, 1899447441, 3049323471, 3921009573, 961987163, 1508970993,
     2453635748, 2870763221, 3624381080, 310598401, 607225278, 1426881987,
     1925078388, 2162078206, 2614888103, 3248222580, 3835390401, 4022224774,
     264347078, 604807628, 770255983, 1249150122, 1555081692, 1996064986,
     2554220882, 2821834349, 2952996808, 3210313671, 3336571891, 3584528711,
     113926993, 338241895, 666307205, 773529912, 1294757372, 1396182291,
     1695183700, 1986661051, 2177026350, 2456956037, 2730485921, 2820302411,
     3259730800, 3345764771, 3516065817, 3600352804, 4094571909, 275423344,
     430227734, 506948616, 659060556, 883997877, 958139571, 1322822218,
     1537002063, 1747873779, 1955562222, 2024104815, 2227730452, 2361852424,
     2428436474, 2756734187, 3204031479, 3329325298]"

definition initialDigest :: "uint32 list" where
  "initialDigest =
     [1779033703, 3144134277, 1013904242, 2773480762,
      1359893119, 2600822924, 528734635, 1541459225]"

text \<open>\<open>binary.BigEndian.Uint32\<close>: the first four bytes, most significant first.\<close>

fun Uint32 :: "byte list \<Rightarrow> uint32" where
  "Uint32 (b0 # b1 # b2 # b3 # _) =
     ucast b3 OR push_bit 8 (ucast b2) OR push_bit 16 (ucast b1) OR push_bit 24 (ucast b0)"
| "Uint32 _ = 0"

fun blockWords :: "nat \<Rightarrow> byte list \<Rightarrow> uint32 list" where
  "blockWords 0 bs = []"
| "blockWords (Suc n) bs = Uint32 bs # blockWords n (drop 4 bs)"

definition smallSigma0 :: "uint32 \<Rightarrow> uint32" where
  "smallSigma0 x = rotr 7 x XOR rotr 18 x XOR drop_bit 3 x"

definition smallSigma1 :: "uint32 \<Rightarrow> uint32" where
  "smallSigma1 x = rotr 17 x XOR rotr 19 x XOR drop_bit 10 x"

definition bigSigma0 :: "uint32 \<Rightarrow> uint32" where
  "bigSigma0 x = rotr 2 x XOR rotr 13 x XOR rotr 22 x"

definition bigSigma1 :: "uint32 \<Rightarrow> uint32" where
  "bigSigma1 x = rotr 6 x XOR rotr 11 x XOR rotr 25 x"

definition chooseBits :: "uint32 \<Rightarrow> uint32 \<Rightarrow> uint32 \<Rightarrow> uint32" where
  "chooseBits x y z = (x AND y) XOR (NOT x AND z)"

definition majorityBits :: "uint32 \<Rightarrow> uint32 \<Rightarrow> uint32 \<Rightarrow> uint32" where
  "majorityBits x y z = (x AND y) XOR (x AND z) XOR (y AND z)"

text \<open>
  The message schedule: \<open>w\<close> holds the last sixteen words, oldest first; each step
  appends the next word.
\<close>

fun extendSchedule :: "nat \<Rightarrow> uint32 list \<Rightarrow> uint32 list" where
  "extendSchedule 0 w = []"
| "extendSchedule (Suc n) w =
     (let x = smallSigma1 (w ! 14) + (w ! 9) + smallSigma0 (w ! 1) + (w ! 0)
      in x # extendSchedule n (tl w @ [x]))"

fun compressRound :: "uint32 list \<Rightarrow> uint32 \<times> uint32 \<Rightarrow> uint32 list" where
  "compressRound [a, b, c, d, e, f, g, h] (k, w) =
     (let t1 = h + bigSigma1 e + chooseBits e f g + k + w;
          t2 = bigSigma0 a + majorityBits a b c
      in [t1 + t2, a, b, c, d + t1, e, f, g])"
| "compressRound s _ = s"

definition compressBlock :: "uint32 list \<Rightarrow> byte list \<Rightarrow> uint32 list" where
  "compressBlock hs blk =
     (let w16 = blockWords 16 blk;
          w = w16 @ extendSchedule 48 w16
      in map2 (+) hs (foldl compressRound hs (zip roundConstants w)))"

definition lengthBytes :: "64 word \<Rightarrow> byte list" where
  "lengthBytes v = map (\<lambda>i. ucast (drop_bit (8 * i) v)) [7, 6, 5, 4, 3, 2, 1, 0]"

definition padMessage :: "byte list \<Rightarrow> byte list" where
  "padMessage m =
     m @ [128] @ replicate ((119 - length m mod 64) mod 64) 0
       @ lengthBytes (8 * of_nat (length m))"

function compressBlocks :: "uint32 list \<Rightarrow> byte list \<Rightarrow> uint32 list" where
  "compressBlocks hs bs =
     (if length bs < 64 then hs
      else compressBlocks (compressBlock hs (take 64 bs)) (drop 64 bs))"
  by pat_completeness auto
termination
  by (relation "measure (\<lambda>(hs, bs). length bs)") auto

definition wordBytes :: "uint32 \<Rightarrow> byte list" where
  "wordBytes x = [ucast (drop_bit 24 x), ucast (drop_bit 16 x), ucast (drop_bit 8 x), ucast x]"

definition Sum256 :: "byte list \<Rightarrow> byte list" where
  "Sum256 m = concat (map wordBytes (compressBlocks initialDigest (padMessage m)))"

section \<open>The ID generator (\<open>GenerateID\<close>, internal/users/manager.go)\<close>

text \<open>
  \<open>strings.ToLower\<close> and \<open>strings.ToUpper\<close> of the Go standard library. A string
  whose bytes are all below \<open>utf8.RuneSelf = 0x80\<close> is mapped byte by byte. Any other
  string goes through \<open>strings.Map(unicode.ToLower, s)\<close> (or \<open>unicode.ToUpper\<close>),
  which depends on the Unicode case tables of the Go runtime: that mapping is the
  parameter \<open>mapLower\<close> (or \<open>mapUpper\<close>).
\<close>

definition isASCII :: "string \<Rightarrow> bool" where
  "isASCII s = list_all (\<lambda>c. (of_char c :: nat) < 128) s"

definition lowerByte :: "char \<Rightarrow> char" where
  "lowerByte c =
     (let n = of_char c :: nat in if 65 \<le> n \<and> n \<le> 90 then char_of (n + 32) else c)"

definition upperByte :: "char \<Rightarrow> char" where
  "upperByte c =
     (let n = of_char c :: nat in if 97 \<le> n \<and> n \<le> 122 then char_of (n - 32) else c)"

definition ToLower :: "(string \<Rightarrow> string) \<Rightarrow> string \<Rightarrow> string" where
  "ToLower mapLower s = (if isASCII s then map lowerByte s else mapLower s)"

definition ToUpper :: "(string \<Rightarrow> string) \<Rightarrow> string \<Rightarrow> string" where
  "ToUpper mapUpper s = (if isASCII s then map upperByte s else mapUpper s)"

text \<open>\<open>[]byte(str)\<close>\<close>

definition bytesOf :: "string \<Rightarrow> byte list" where
  "bytesOf s = map of_char s"

definition minID :: uint32 where
  "minID = 65536"

definition maxID :: uint32 where
  "maxID = 2147483647"

text \<open>\<open>binary.BigEndian.Uint32(hash[:4]) % maxID\<close>, computed on \<open>uint32\<close>.\<close>

definition hashNumber :: "byte list \<Rightarrow> uint32" where
  "hashNumber hash = Uint32 (take 4 hash) mod maxID"

text \<open>
  The loop \<open>for number < minID\<close>. Nothing in the code bounds the number of rounds, so the
  loop is a partial function: \<open>None\<close> stands for a run that never leaves the loop.
\<close>

partial_function (option) rehashLoop :: "byte list \<Rightarrow> uint32 \<Rightarrow> uint32 option" where
  "rehashLoop hash number =
     (if number < minID then rehashLoop (Sum256 hash) (hashNumber (Sum256 hash))
      else Some number)"

definition GenerateID :: "(string \<Rightarrow> string) \<Rightarrow> string \<Rightarrow> int option" where
  "GenerateID mapLower str =
     (let str = ToLower mapLower str;
          hash = Sum256 (bytesOf str);
          number = hashNumber hash
      in map_option uint (rehashLoop hash number))"

text \<open>
  Two entries of the Unicode case tables, for one example: U+0131 (Latin small letter
  dotless i, the bytes \<open>C4 B1\<close> in UTF-8) has the upper case U+0049 (\<open>I\<close>) and is its own
  lower case. The two functions below agree with \<open>strings.Map(unicode.ToUpper, s)\<close> and
  \<open>strings.Map(unicode.ToLower, s)\<close> on that string; they are not used on any other.
\<close>

definition dotlessI :: string where
  "dotlessI = [char_of (196 :: nat), char_of (177 :: nat)]"

definition mapUpperDotless :: "string \<Rightarrow> string" where
  "mapUpperDotless s = (if s = dotlessI then ''I'' else s)"

definition mapLowerDotless :: "string \<Rightarrow> string" where
  "mapLowerDotless s = s"

section \<open>Starting a broker session (PAM client, \<open>startBrokerSession\<close>)\<close>

text \<open>
  Go strings are byte sequences; they are modelled as \<^typ>\<open>string\<close>.
  \<open>os.Getenv\<close> is the process environment: a function from variable names to values that
  yields the empty string for an unset variable.
\<close>

type_synonym environ = "string \<Rightarrow> string"

text \<open>\<open>strings.HasSuffix\<close> and \<open>strings.TrimSuffix\<close> of the Go standard library.\<close>

definition HasSuffix :: "string \<Rightarrow> string \<Rightarrow> bool" where
  "HasSuffix s suffix =
     (length s \<ge> length suffix \<and> drop (length s - length suffix) s = suffix)"

definition TrimSuffix :: "string \<Rightarrow> string \<Rightarrow> string" where
  "TrimSuffix s suffix =
     (if HasSuffix s suffix then take (length s - length suffix) s else s)"

record SBRequest =
  BrokerId :: string
  Username :: string
  Lang :: string

record SBResponse =
  SessionId :: string
  EncryptionKey :: string

text \<open>The messages \<open>startBrokerSession\<close> can return to the bubbletea runtime.\<close>

datatype session_msg =
    pamIgnore string
  | pamSystemError string
  | SessionStarted string string

text \<open>
  The loop over \<open>[]string{"LANG", "LC_MESSAGES", "LC_ALL"}\<close>: every non-empty variable
  overwrites \<open>lang\<close>.
\<close>

fun langLoop :: "environ \<Rightarrow> string list \<Rightarrow> string \<Rightarrow> string" where
  "langLoop getenv [] lang = lang"
| "langLoop getenv (e # es) lang =
     (let l = getenv e in langLoop getenv es (if l \<noteq> [] then l else lang))"

definition sessionLang :: "environ \<Rightarrow> string" where
  "sessionLang getenv =
     TrimSuffix (langLoop getenv [''LANG'', ''LC_MESSAGES'', ''LC_ALL''] ''C'') ''.UTF-8''"

definition sbReq :: "environ \<Rightarrow> string \<Rightarrow> string \<Rightarrow> SBRequest" where
  "sbReq getenv brokerID username =
     \<lparr>BrokerId = brokerID, Username = username, Lang = sessionLang getenv\<rparr>"

text \<open>
  \<open>client.SelectBroker\<close> is the remote call: it answers with the text of an error or with
  a response.
\<close>

definition startBrokerSession ::
  "(SBRequest \<Rightarrow> string + SBResponse) \<Rightarrow> environ \<Rightarrow> string \<Rightarrow> string \<Rightarrow> session_msg" where
  "startBrokerSession SelectBroker getenv brokerID username =
     (if brokerID = ''local'' then pamIgnore []
      else case SelectBroker (sbReq getenv brokerID username) of
             Inl err \<Rightarrow> pamSystemError (''can't select broker: '' @ err)
           | Inr sbResp \<Rightarrow>
               if SessionId sbResp = [] then pamSystemError ''no session ID returned by broker''
               else if EncryptionKey sbResp = [] then
                 pamSystemError ''no encryption key returned by broker''
               else SessionStarted (SessionId sbResp) (EncryptionKey sbResp))"

text \<open>
  The selector in the words of the specification: the first non-empty value among the
  variables, in the order given.
\<close>

definition firstNonEmptyLang :: "environ \<Rightarrow> string" where
  "firstNonEmptyLang getenv =
     TrimSuffix
       (case filter (\<lambda>l. l \<noteq> []) (map getenv [''LANG'', ''LC_MESSAGES'', ''LC_ALL'']) of
          [] \<Rightarrow> ''C''
        | l # _ \<Rightarrow> l)
       ''.UTF-8''"

text \<open>A broker for the examples: its session ID repeats the \<open>lang\<close> it was sent.\<close>

definition echoBroker :: "SBRequest \<Rightarrow> string + SBResponse" where
  "echoBroker req = Inr \<lparr>SessionId = Lang req, EncryptionKey = BrokerId req\<rparr>"

definition envFrench :: environ where
  "envFrench e =
     (if e = ''LANG'' then ''en_US.UTF-8'' else if e = ''LC_ALL'' then ''fr_FR.UTF-8'' else [])"

section \<open>Panics\<close>

text \<open>
  A read through a \<open>nil\<close> pointer panics: the call has no result and the program stops.
  A function that can panic returns an \<open>outcome\<close>.
\<close>

datatype 'a outcome = Returns 'a | Panics

section \<open>The GDM session driver (\<open>gdmModel\<close>, pam/internal/adapter/gdmmodel.go)\<close>

text \<open>
  The types of the messages, events and commands are declared in other files of the
  adapter and of the GDM protocol; they are written out with the variants and fields that
  \<open>gdmmodel.go\<close> uses. Payloads that the driver only forwards (broker lists,
  authentication modes, UI layouts, authentication data) are kept as opaque strings.
\<close>

type_synonym BrokerInfo = string
type_synonym AuthMode = string
type_synonym UILayout = string
type_synonym AuthItem = string

text \<open>
  Modelled from the spec: the constants \<open>brokers.AuthGranted\<close>, \<open>brokers.AuthDenied\<close>,
  \<open>brokers.AuthCancelled\<close>, \<open>brokers.AuthRetry\<close> and \<open>brokers.AuthNext\<close> are not part of
  the verified sources. The access verdict is a string in the code; it is one of these five
  values or any other string, \<open>AuthOther s\<close>.
\<close>

datatype access =
    AuthGranted
  | AuthDenied
  | AuthCancelled
  | AuthRetry
  | AuthNext
  | AuthOther string

datatype Stage =
    Stage_userSelection
  | Stage_brokerSelection
  | Stage_authModeSelection
  | Stage_challenge

datatype pamStatus = ErrSystem | ErrCredUnavail

text \<open>The events the driver emits to GDM (\<open>gdm.EmitEvent\<close>).\<close>

datatype EventData =
    EventData_UserSelected string
  | EventData_BrokersReceived "BrokerInfo list"
  | EventData_BrokerSelected string
  | EventData_AuthModesReceived "AuthMode list"
  | EventData_AuthModeSelected string
  | EventData_UiLayoutReceived UILayout
  | EventData_StartAuthentication
  | EventData_AuthEvent access string

text \<open>
  The events GDM hands over in a poll (\<open>gdm.SendPoll\<close>). A payload is a pointer: \<open>None\<close>
  is \<open>nil\<close>. The code tests the payloads for \<open>nil\<close>, except that of a selected user,
  which it reads at once.
\<close>

datatype PollResult =
    Poll_UserSelected "string option"
  | Poll_BrokerSelected "string option"
  | Poll_AuthModeSelected "string option"
  | Poll_IsAuthenticatedRequested "AuthItem option"
  | Poll_ReselectAuthMode
  | Poll_IsAuthenticatedCancelled
  | Poll_StageChanged "Stage option"
  | Poll_Other

text \<open>The bubbletea messages (\<open>tea.Msg\<close>); \<open>NilMsg\<close> is the \<open>nil\<close> message.\<close>

datatype Msg =
    NilMsg
  | gdmPollDone
  | userSelected string
  | brokersListReceived "BrokerInfo list"
  | brokerSelected string
  | authModesReceived "AuthMode list"
  | authModeSelected string
  | UILayoutReceived UILayout
  | startAuthentication
  | isAuthenticatedRequested AuthItem
  | isAuthenticatedResultReceived access string
  | isAuthenticatedCancelled string
  | reselectAuthMode
  | ChangeStage Stage
  | pamError pamStatus string
  | OtherMsg string

text \<open>
  The commands (\<open>tea.Cmd\<close>) handed back to the runtime: \<open>sendEvent msg\<close> delivers
  \<open>msg\<close>; \<open>emitEvent ev\<close> emits \<open>ev\<close> to GDM when the runtime runs it.
\<close>

datatype Cmd =
    CmdNil
  | sendEvent Msg
  | emitEvent EventData
  | selectAuthMode string
  | Tick
  | Sequence "Cmd list"
  | Batch "Cmd list"

record gdmModel =
  waitingAuth :: bool
  conversationsStopped :: bool

text \<open>
  What the driver calls outside this file: the GDM transport (\<open>gdm.EmitEvent\<close> answers
  with the text of an error or with none, \<open>gdm.SendPoll\<close> with an error or the polled
  events), \<open>dataToMsg\<close> of the adapter package (the message of a broker's JSON data, or
  an error), and the formatting of the standard library (\<open>%q\<close> of \<open>fmt.Sprintf\<close>,
  \<open>json.Marshal\<close> of a string).
\<close>

record gdmEnv =
  EmitEvent :: "EventData \<Rightarrow> string option"
  SendPoll :: "string + PollResult list"
  dataToMsg :: "string \<Rightarrow> string + string"
  quote :: "string \<Rightarrow> string"
  jsonMarshal :: "string \<Rightarrow> string"

definition emitEventSync :: "gdmEnv \<Rightarrow> EventData \<Rightarrow> Msg" where
  "emitEventSync env event =
     (case EmitEvent env event of
        Some err \<Rightarrow> pamError ErrSystem (''Sending GDM event failed: '' @ err)
      | None \<Rightarrow> NilMsg)"

text \<open>
  The loop of \<open>pollGdm\<close> over the polled events. It runs on a pointer receiver and
  clears \<open>waitingAuth\<close> when GDM asks for the authentication it was waiting for. Reading
  \<open>res.UserSelected.UserId\<close> of a \<open>nil\<close> payload panics.
\<close>

fun pollLoop ::
  "gdmModel \<Rightarrow> Cmd list \<Rightarrow> PollResult list \<Rightarrow> (gdmModel \<times> Cmd) outcome" where
  "pollLoop m commands [] = Returns (m, Batch commands)"
| "pollLoop m commands (Poll_UserSelected None # rs) = Panics"
| "pollLoop m commands (Poll_UserSelected (Some username) # rs) =
     pollLoop m (commands @ [sendEvent (userSelected username)]) rs"
| "pollLoop m commands (Poll_BrokerSelected None # rs) =
     Returns (m, sendEvent (pamError ErrSystem ''missing broker selected''))"
| "pollLoop m commands (Poll_BrokerSelected (Some brokerID) # rs) =
     pollLoop m (commands @ [sendEvent (brokerSelected brokerID)]) rs"
| "pollLoop m commands (Poll_AuthModeSelected None # rs) =
     Returns (m, sendEvent (pamError ErrSystem ''missing auth mode id''))"
| "pollLoop m commands (Poll_AuthModeSelected (Some authModeID) # rs) =
     pollLoop m (commands @ [selectAuthMode authModeID]) rs"
| "pollLoop m commands (Poll_IsAuthenticatedRequested item # rs) =
     (if \<not> waitingAuth m then pollLoop m commands rs
      else case item of
             None \<Rightarrow>
               Returns (m\<lparr>waitingAuth := False\<rparr>,
                        sendEvent (pamError ErrSystem ''missing auth requested''))
           | Some i \<Rightarrow>
               pollLoop (m\<lparr>waitingAuth := False\<rparr>)
                 (commands @ [sendEvent (isAuthenticatedRequested i)]) rs)"
| "pollLoop m commands (Poll_ReselectAuthMode # rs) =
     pollLoop m (commands @ [sendEvent reselectAuthMode]) rs"
| "pollLoop m commands (Poll_IsAuthenticatedCancelled # rs) =
     pollLoop m
       (if waitingAuth m then commands @ [sendEvent (isAuthenticatedCancelled [])]
        else commands) rs"
| "pollLoop m commands (Poll_StageChanged None # rs) =
     Returns (m, sendEvent (pamError ErrSystem ''missing stage changed''))"
| "pollLoop m commands (Poll_StageChanged (Some stage) # rs) =
     pollLoop m
       ((if waitingAuth m \<and> stage \<noteq> Stage_challenge
         then commands @ [sendEvent (isAuthenticatedCancelled [])]
         else commands) @ [sendEvent (ChangeStage stage)]) rs"
| "pollLoop m commands (Poll_Other # rs) = pollLoop m commands rs"

definition pollGdm :: "gdmEnv \<Rightarrow> gdmModel \<Rightarrow> (gdmModel \<times> Cmd) outcome" where
  "pollGdm env m =
     (case SendPoll env of
        Inl err \<Rightarrow>
          Returns (m, sendEvent (pamError ErrSystem (''Sending GDM poll failed: '' @ err)))
      | Inr gdmPollResults \<Rightarrow> pollLoop m [sendEvent gdmPollDone] gdmPollResults)"

text \<open>
  The message of the \<open>default\<close> branch:
  \<open>fmt.Sprintf(`{"message": %s}`, json.Marshal(fmt.Sprintf("Access %q is not valid", access)))\<close>.
\<close>

definition invalidAccessMsg :: "gdmEnv \<Rightarrow> string \<Rightarrow> string" where
  "invalidAccessMsg env a =
     ''{\"message\": '' @ jsonMarshal env (''Access '' @ quote env a @ '' is not valid'') @ ''}''"

text \<open>
  \<open>Update\<close> returns the model, the events it emitted to GDM while it ran (through
  \<open>emitEventSync\<close>), and the command for the runtime. In the \<open>gdmPollDone\<close> branch the
  call \<open>m.pollGdm()\<close> runs before the model is copied into the result, and a panic of
  the poll is a panic of \<open>Update\<close>.
\<close>

fun Update ::
  "gdmEnv \<Rightarrow> gdmModel \<Rightarrow> Msg \<Rightarrow> (gdmModel \<times> EventData list \<times> Cmd) outcome" where
  "Update env m msg =
     (if conversationsStopped m then Returns (m, [], CmdNil)
      else case msg of
        gdmPollDone \<Rightarrow>
          (case pollGdm env m of
             Panics \<Rightarrow> Panics
           | Returns (m', cmd) \<Rightarrow> Returns (m', [], Sequence [Tick, cmd]))
      | userSelected username \<Rightarrow>
          Returns (m, [], emitEvent (EventData_UserSelected username))
      | brokersListReceived brokers \<Rightarrow>
          Returns (m, [], emitEvent (EventData_BrokersReceived brokers))
      | brokerSelected brokerID \<Rightarrow>
          Returns (m, [], emitEvent (EventData_BrokerSelected brokerID))
      | authModesReceived authModes \<Rightarrow>
          Returns (m, [], emitEvent (EventData_AuthModesReceived authModes))
      | authModeSelected i \<Rightarrow> Returns (m, [], emitEvent (EventData_AuthModeSelected i))
      | UILayoutReceived layout \<Rightarrow>
          Returns (m, [EventData_UiLayoutReceived layout],
                   sendEvent (emitEventSync env (EventData_UiLayoutReceived layout)))
      | startAuthentication \<Rightarrow>
          (if waitingAuth m then Returns (m, [], CmdNil)
           else Returns (m\<lparr>waitingAuth := True\<rparr>, [EventData_StartAuthentication],
                         sendEvent (emitEventSync env EventData_StartAuthentication)))
      | isAuthenticatedResultReceived access d \<Rightarrow>
          (case dataToMsg env d of
             Inl err \<Rightarrow> Returns (m, [], sendEvent (pamError ErrSystem err))
           | Inr authMsg \<Rightarrow>
               (case access of
                  AuthCancelled \<Rightarrow> Returns (m, [], sendEvent (isAuthenticatedCancelled []))
                | AuthOther a \<Rightarrow>
                    Returns (m, [],
                      sendEvent (isAuthenticatedResultReceived AuthDenied
                                   (invalidAccessMsg env a)))
                | _ \<Rightarrow>
                    Returns (m, [EventData_AuthEvent access authMsg],
                      sendEvent (emitEventSync env (EventData_AuthEvent access authMsg)))))
      | isAuthenticatedCancelled s \<Rightarrow>
          Returns (m\<lparr>waitingAuth := False\<rparr>, [EventData_AuthEvent AuthCancelled s],
                   sendEvent (emitEventSync env (EventData_AuthEvent AuthCancelled s)))
      | _ \<Rightarrow> Returns (m, [], CmdNil))"


text \<open>
  The authentication requests in a command: each \<open>isAuthenticatedRequested\<close> it delivers
  makes the client call \<open>IsAuthenticated\<close>.
\<close>

fun requestsIn :: "Cmd \<Rightarrow> nat" where
  "requestsIn (sendEvent (isAuthenticatedRequested item)) = 1"
| "requestsIn (Sequence cmds) = sum_list (map requestsIn cmds)"
| "requestsIn (Batch cmds) = sum_list (map requestsIn cmds)"
| "requestsIn cmd = 0"



text \<open>
  An environment for the examples: GDM accepts every event and has nothing to report, the
  data decoder rejects one string, and strings are quoted by escaping the double quote
  and the backslash (what \<open>%q\<close> and \<open>json.Marshal\<close> do to printable ASCII letters,
  digits and spaces).
\<close>

definition quoteString :: "string \<Rightarrow> string" where
  "quoteString s =
     ''\"'' @ concat (map (\<lambda>c. if c = CHR ''\"'' \<or> c = CHR 0x5C then [CHR 0x5C, c] else [c]) s)
       @ ''\"''"

definition exampleEnv :: gdmEnv where
  "exampleEnv =
     \<lparr>EmitEvent = (\<lambda>ev. None),
      SendPoll = Inr [],
      dataToMsg = (\<lambda>d. if d = ''not json'' then Inl ''invalid json data from provider''
                         else Inr d),
      quote = quoteString,
      jsonMarshal = quoteString\<rparr>"

definition waitingModel :: gdmModel where
  "waitingModel = \<lparr>waitingAuth = True, conversationsStopped = False\<rparr>"


definition stoppedModel :: gdmModel where
  "stoppedModel = \<lparr>waitingAuth = True, conversationsStopped = True\<rparr>"


section \<open>Errors\<close>

text \<open>
  Go errors as values. \<open>Errorf\<close> is the text of \<open>fmt.Errorf\<close>: its format, the strings and
  integers printed into it, and the errors printed with \<open>%v\<close>, which do not stay in the
  error chain. \<open>Join\<close> is \<open>errors.Join\<close>, \<open>OnError\<close> the wrapping (with \<open>%w\<close>) that
  \<open>decorate.OnError\<close> puts around a returned error. \<open>ErrNeedsClearing\<close> is the sentinel
  \<open>cache.ErrNeedsClearing\<close>, \<open>ErrNotExist\<close> is \<open>fs.ErrNotExist\<close>. A \<open>nil\<close> error is
  \<open>None\<close> of \<open>error option\<close>.
\<close>

datatype key = KeyInt int | KeyString string

datatype fmtArg = ArgString string | ArgInt int

datatype error =
    ErrNeedsClearing
  | ErrNotExist
  | NoDataFoundError key string
  | ErrorString string
  | Errorf string "fmtArg list" "error list"
  | Join "error list"
  | OnError string "fmtArg list" error

text \<open>
  Modelled from the spec: \<open>NoDataFoundError\<close> is declared outside the verified
  sources. A missing entry is "NotFound" whatever key and bucket the error names, so
  \<open>errors.Is(err, NoDataFoundError{})\<close> holds for every \<open>NoDataFoundError\<close>; for the
  other targets \<open>errors.Is\<close> compares with the target and walks through \<open>Join\<close> and
  the wrapping.
\<close>

fun matchesTarget :: "error \<Rightarrow> error \<Rightarrow> bool" where
  "matchesTarget (NoDataFoundError k b) (NoDataFoundError k' b') = True"
| "matchesTarget e target = (e = target)"

fun errorsIs :: "error \<Rightarrow> error \<Rightarrow> bool" where
  "errorsIs (Join errs) target =
     (matchesTarget (Join errs) target \<or> list_ex (\<lambda>e. errorsIs e target) errs)"
| "errorsIs (OnError f args e) target =
     (matchesTarget (OnError f args e) target \<or> errorsIs e target)"
| "errorsIs e target = matchesTarget e target"

text \<open>\<open>errors.Join\<close> drops the \<open>nil\<close> errors and is \<open>nil\<close> when nothing is left.\<close>

definition errorsJoin :: "error option list \<Rightarrow> error option" where
  "errorsJoin errs =
     (case List.map_filter id errs of [] \<Rightarrow> None | es \<Rightarrow> Some (Join es))"


section \<open>The cache of users (internal/users/cache)\<close>

text \<open>\<open>UserPasswdShadow\<close> as the cache package declares it.\<close>

record UserPasswdShadow =
  Name :: string
  UID :: int
  GID :: int
  Gecos :: string
  Dir :: string
  Shell :: string
  LastPwdChange :: int
  MaxPwdAge :: int
  PwdWarnPeriod :: int
  PwdInactivity :: int
  MinPwdAge :: int
  ExpirationDate :: int

text \<open>
  Modelled from the spec: the types \<open>UserDB\<close> and \<open>GroupDB\<close> are declared outside the
  verified sources. \<open>UserDB\<close>, the stored form of a user, has the fields of
  \<open>UserPasswdShadow\<close> (it has the method \<open>toUserPasswdShadow\<close>) and the time of the last
  login; a stored group has its name, its GID and its members. Times are seconds on the
  clock of the model.
\<close>

record UserDB = UserPasswdShadow +
  LastLogin :: int

record GroupDB =
  GroupName :: string
  GroupGID :: int
  GroupUIDs :: "int list"

text \<open>The zero value \<open>UserDB{}\<close>.\<close>

definition zeroUserDB :: UserDB where
  "zeroUserDB =
     \<lparr>Name = [], UID = 0, GID = 0, Gecos = [], Dir = [], Shell = [],
      LastPwdChange = 0, MaxPwdAge = 0, PwdWarnPeriod = 0, PwdInactivity = 0,
      MinPwdAge = 0, ExpirationDate = 0, LastLogin = 0\<rparr>"

definition toUserPasswdShadow :: "UserDB \<Rightarrow> UserPasswdShadow" where
  "toUserPasswdShadow u = UserPasswdShadow.truncate u"

text \<open>
  Modelled from the spec: the constructors \<open>cache.NewUserDB\<close> and \<open>cache.NewGroupDB\<close> are
  not part of the verified sources. They fill the record from their arguments; the last
  login is the time of the call, and the shadow fields, which nothing here reads, get
  \<open>-1\<close>.
\<close>

definition NewUserDB ::
  "string \<Rightarrow> int \<Rightarrow> int \<Rightarrow> string \<Rightarrow> string \<Rightarrow> string \<Rightarrow> int \<Rightarrow> UserDB" where
  "NewUserDB name uid gid gecos dir shell now =
     \<lparr>Name = name, UID = uid, GID = gid, Gecos = gecos, Dir = dir, Shell = shell,
      LastPwdChange = - 1, MaxPwdAge = - 1, PwdWarnPeriod = - 1, PwdInactivity = - 1,
      MinPwdAge = - 1, ExpirationDate = - 1, LastLogin = now\<rparr>"

definition NewGroupDB :: "string \<Rightarrow> int \<Rightarrow> int list \<Rightarrow> GroupDB" where
  "NewGroupDB name gid members = \<lparr>GroupName = name, GroupGID = gid, GroupUIDs = members\<rparr>"

text \<open>
  A bucket of the database holds byte strings under keys. What matters of a stored
  byte string is what \<open>json.Unmarshal\<close> makes of it: a record (\<open>Encoded\<close>) or an error
  (\<open>Garbled\<close>, with the text of the error). A bucket lists its entries in the order
  \<open>ForEach\<close> visits them. A bucket can be missing from the database (\<open>None\<close>).
\<close>

datatype 'a stored = Encoded 'a | Garbled string

type_synonym 'a bucket = "(key \<times> 'a stored) list"

record Cache =
  userByID :: "UserDB bucket option"
  userByName :: "UserDB bucket option"
  groupByID :: "GroupDB bucket option"
  groupByName :: "GroupDB bucket option"

definition emptyCache :: Cache where
  "emptyCache = \<lparr>userByID = Some [], userByName = Some [], groupByID = Some [],
                  groupByName = Some []\<rparr>"

text \<open>
  Modelled from the spec: the constants \<open>userByIDBucketName\<close> and
  \<open>userByNameBucketName\<close> are not part of the verified sources. They name the buckets
  \<open>user_by_id\<close> and \<open>user_by_name\<close>; all that matters is that they differ.
\<close>

definition userByIDBucketName :: string where
  "userByIDBucketName = ''UserByID''"

definition userByNameBucketName :: string where
  "userByNameBucketName = ''UserByName''"

text \<open>
  Modelled from the spec: \<open>getBucket\<close> and \<open>getFromBucket\<close> are not part of the
  verified sources. \<open>getBucket\<close> fails when the database has no bucket of that name;
  \<open>getFromBucket\<close> answers \<open>NoDataFoundError\<close> for a key without entry and a decoding
  error for an entry that does not decode. A bucket is handed over with its name.
\<close>

definition getBucket :: "Cache \<Rightarrow> string \<Rightarrow> error + (string \<times> UserDB bucket)" where
  "getBucket c bucketName =
     (case (if bucketName = userByIDBucketName then userByID c
            else if bucketName = userByNameBucketName then userByName c
            else None) of
        None \<Rightarrow> Inl (Errorf ''bucket %v not found'' [ArgString bucketName] [])
      | Some b \<Rightarrow> Inr (bucketName, b))"

definition getFromBucket :: "string \<times> 'a bucket \<Rightarrow> key \<Rightarrow> error + 'a" where
  "getFromBucket bucket k =
     (case map_of (snd bucket) k of
        None \<Rightarrow> Inl (NoDataFoundError k (fst bucket))
      | Some (Garbled err) \<Rightarrow>
          Inl (Errorf ''can't unmarshal bucket %q for key %v: %v''
                 [ArgString (fst bucket)] [ErrorString err])
      | Some (Encoded r) \<Rightarrow> Inr r)"

text \<open>\<open>getUser\<close>, \<open>Cache.UserByID\<close>, \<open>Cache.UserByName\<close> and \<open>Cache.AllUsers\<close>.\<close>

definition getUser :: "Cache \<Rightarrow> string \<Rightarrow> key \<Rightarrow> UserDB \<times> error option" where
  "getUser c bucketName k =
     (case getBucket c bucketName of
        Inl err \<Rightarrow> (zeroUserDB, Some (Join [ErrNeedsClearing, err]))
      | Inr bucket \<Rightarrow>
          (case getFromBucket bucket k of
             Inl err \<Rightarrow>
               (zeroUserDB,
                Some (if \<not> errorsIs err (NoDataFoundError (KeyString []) [])
                      then Join [ErrNeedsClearing, err] else err))
           | Inr u \<Rightarrow> (u, None)))"

definition Cache_UserByID :: "Cache \<Rightarrow> int \<Rightarrow> UserPasswdShadow \<times> error option" where
  "Cache_UserByID c uid =
     (case getUser c userByIDBucketName (KeyInt uid) of
        (u, err) \<Rightarrow> (toUserPasswdShadow u, err))"

definition Cache_UserByName :: "Cache \<Rightarrow> string \<Rightarrow> UserPasswdShadow \<times> error option" where
  "Cache_UserByName c name =
     (case getUser c userByNameBucketName (KeyString name) of
        (u, err) \<Rightarrow> (toUserPasswdShadow u, err))"

fun forEachUser ::
  "(key \<times> UserDB stored) list \<Rightarrow> UserPasswdShadow list \<Rightarrow> error + UserPasswdShadow list" where
  "forEachUser [] all = Inr all"
| "forEachUser ((k, Garbled err) # rest) all =
     Inl (Errorf ''can't unmarshal user in bucket %q for key %v: %v''
            [ArgString userByIDBucketName] [ErrorString err])"
| "forEachUser ((k, Encoded e) # rest) all = forEachUser rest (all @ [toUserPasswdShadow e])"

definition Cache_AllUsers :: "Cache \<Rightarrow> UserPasswdShadow list \<times> error option" where
  "Cache_AllUsers c =
     (case getBucket c userByIDBucketName of
        Inl err \<Rightarrow> ([], Some (Join [ErrNeedsClearing, err]))
      | Inr bucket \<Rightarrow>
          (case forEachUser (snd bucket) [] of
             Inl err \<Rightarrow> ([], Some (Join [ErrNeedsClearing, err]))
           | Inr all \<Rightarrow> (all, None)))"


section \<open>The world of the manager\<close>

text \<open>
  What the manager acts on: the database file in the cache directory, the marker file
  \<open>.corrupted\<close> beside it, the memberships in local groups that the daemon manages, the
  process directory, the clock, and the requests sent to the cleanup routine on the
  channel \<open>doClear\<close>. \<open>cacheOpen\<close> tells whether \<open>m.cache\<close> is set. Any operation of the
  environment may fail: \<open>fails w op = Some e\<close> makes \<open>op\<close> fail with \<open>e\<close> and leave the
  world as it was.
\<close>

datatype dbFile = NoFile | Unreadable | Database Cache

datatype op =
    CacheNew
  | CacheRemoveDb
  | CacheClear
  | CacheUpdateUserEntry
  | CacheDeleteUser
  | CacheCleanExpiredUsers
  | LocalGroupsUpdate
  | LocalGroupsClean
  | LocalGroupsCleanUser
  | OsRemove
  | OsWriteFile
  | OsReadDir

text \<open>
  An entry of the process directory: its name and what \<open>dirEntry.Info()\<close> gives, an
  error, a file information without \<open>syscall.Stat_t\<close>, or the owner's UID.
\<close>

datatype fileInfo = InfoError error | InfoNoStat | InfoStat nat

record World =
  dbFile :: dbFile
  cacheOpen :: bool
  dirtyFlag :: bool
  localMembers :: "(string \<times> string) list"
  procEntries :: "(string \<times> fileInfo) list"
  clock :: int
  clearRequests :: nat
  fails :: "op \<Rightarrow> error option"

text \<open>A call that dereferences a \<open>nil\<close> \<open>m.cache\<close> panics (\<open>Panics\<close>).\<close>

subsection \<open>Operations of the cache, of the local groups and of the file system\<close>

text \<open>
  Modelled from the spec: \<open>cache.New\<close>, \<open>cache.RemoveDb\<close>, \<open>Cache.Clear\<close>,
  \<open>Cache.UpdateUserEntry\<close>, \<open>Cache.DeleteUser\<close>, \<open>Cache.CleanExpiredUsers\<close> and the
  package \<open>localgroups\<close> are not part of the verified sources. \<open>cache.New\<close> opens the
  database of the cache directory, creates an empty one when there is none, and asks for
  a clearing (\<open>ErrNeedsClearing\<close>) when the file is not a database. \<open>RemoveDb\<close> removes
  the file. \<open>Clear\<close> "destroys and recreates the database file". \<open>UpdateUserEntry\<close> "atomically
  writes both name- and id-keyed entries" of the user and the entries of its groups.
  \<open>DeleteUser\<close> "removes from both keyings ...; missing entry is not an error".
  \<open>CleanExpiredUsers\<close> "removes every user whose last_login < cutoff AND whose uid is not
  in activeUIDs; returns removed names". The membership indexes and the broker bindings
  are left out. \<open>localgroups.Update\<close> sets the local groups of a user to the given ones,
  \<open>CleanUser\<close> removes a user from every local group, \<open>Clean\<close> "removes any
  daemon-managed user no longer present in the identity store". A missing bucket or an
  entry that does not decode is corruption (\<open>ErrNeedsClearing\<close>).
\<close>

definition cache_New :: "World \<Rightarrow> error option \<times> World" where
  "cache_New w =
     (case fails w CacheNew of
        Some e \<Rightarrow> (Some e, w)
      | None \<Rightarrow>
          (case dbFile w of
             NoFile \<Rightarrow> (None, w\<lparr>dbFile := Database emptyCache\<rparr>)
           | Unreadable \<Rightarrow> (Some ErrNeedsClearing, w)
           | Database c \<Rightarrow> (None, w)))"

definition cache_RemoveDb :: "World \<Rightarrow> error option \<times> World" where
  "cache_RemoveDb w =
     (case fails w CacheRemoveDb of
        Some e \<Rightarrow> (Some e, w)
      | None \<Rightarrow> (None, w\<lparr>dbFile := NoFile\<rparr>))"

definition cache_Clear :: "World \<Rightarrow> error option \<times> World" where
  "cache_Clear w =
     (case fails w CacheClear of
        Some e \<Rightarrow> (Some e, w)
      | None \<Rightarrow> (None, w\<lparr>dbFile := Database emptyCache\<rparr>))"

definition corrupted :: "string \<Rightarrow> error" where
  "corrupted what = Join [ErrNeedsClearing, ErrorString what]"

definition putEntry :: "key \<Rightarrow> 'a \<Rightarrow> 'a bucket \<Rightarrow> 'a bucket" where
  "putEntry k v b = (k, Encoded v) # filter (\<lambda>(k', v'). k' \<noteq> k) b"

definition deleteEntry :: "key \<Rightarrow> 'a bucket \<Rightarrow> 'a bucket" where
  "deleteEntry k b = filter (\<lambda>(k', v'). k' \<noteq> k) b"

fun putGroups ::
  "GroupDB list \<Rightarrow> GroupDB bucket \<times> GroupDB bucket \<Rightarrow> GroupDB bucket \<times> GroupDB bucket" where
  "putGroups [] bs = bs"
| "putGroups (g # gs) (byID, byName) =
     putGroups gs
       (putEntry (KeyInt (GroupGID g)) g byID, putEntry (KeyString (GroupName g)) g byName)"

definition cache_UpdateUserEntry ::
  "UserDB \<Rightarrow> GroupDB list \<Rightarrow> World \<Rightarrow> error option \<times> World" where
  "cache_UpdateUserEntry usr groupContents w =
     (case fails w CacheUpdateUserEntry of
        Some e \<Rightarrow> (Some e, w)
      | None \<Rightarrow>
          (case dbFile w of
             Database c \<Rightarrow>
               (case (userByID c, userByName c, groupByID c, groupByName c) of
                  (Some ui, Some un, Some gi, Some gn) \<Rightarrow>
                    (case putGroups groupContents (gi, gn) of
                       (gi', gn') \<Rightarrow>
                         (None,
                          w\<lparr>dbFile := Database
                              \<lparr>userByID = Some (putEntry (KeyInt (UID usr)) usr ui),
                               userByName = Some (putEntry (KeyString (Name usr)) usr un),
                               groupByID = Some gi',
                               groupByName = Some gn'\<rparr>\<rparr>))
                | _ \<Rightarrow> (Some (corrupted ''bucket not found''), w))
           | _ \<Rightarrow> (Some (ErrorString ''database not open''), w)))"

definition cache_DeleteUser :: "int \<Rightarrow> World \<Rightarrow> error option \<times> World" where
  "cache_DeleteUser uid w =
     (case fails w CacheDeleteUser of
        Some e \<Rightarrow> (Some e, w)
      | None \<Rightarrow>
          (case dbFile w of
             Database c \<Rightarrow>
               (case (userByID c, userByName c) of
                  (Some ui, Some un) \<Rightarrow>
                    (case map_of ui (KeyInt uid) of
                       None \<Rightarrow> (None, w)
                     | Some (Garbled err) \<Rightarrow> (Some (corrupted err), w)
                     | Some (Encoded u) \<Rightarrow>
                         (None,
                          w\<lparr>dbFile := Database
                              (c\<lparr>userByID := Some (deleteEntry (KeyInt uid) ui),
                                 userByName := Some (deleteEntry (KeyString (Name u)) un)\<rparr>)\<rparr>))
                | _ \<Rightarrow> (Some (corrupted ''bucket not found''), w))
           | _ \<Rightarrow> (Some (ErrorString ''database not open''), w)))"

fun expiredUsers :: "int list \<Rightarrow> int \<Rightarrow> UserDB bucket \<Rightarrow> error + UserDB list" where
  "expiredUsers activeUIDs expirationDate [] = Inr []"
| "expiredUsers activeUIDs expirationDate ((k, Garbled err) # rest) = Inl (corrupted err)"
| "expiredUsers activeUIDs expirationDate ((k, Encoded u) # rest) =
     (case expiredUsers activeUIDs expirationDate rest of
        Inl e \<Rightarrow> Inl e
      | Inr us \<Rightarrow>
          Inr (if LastLogin u < expirationDate \<and> UID u \<notin> set activeUIDs then u # us else us))"

fun deleteUsers :: "UserDB list \<Rightarrow> UserDB bucket \<times> UserDB bucket \<Rightarrow> UserDB bucket \<times> UserDB bucket" where
  "deleteUsers [] bs = bs"
| "deleteUsers (u # us) (byID, byName) =
     deleteUsers us (deleteEntry (KeyInt (UID u)) byID, deleteEntry (KeyString (Name u)) byName)"

definition cache_CleanExpiredUsers ::
  "int list \<Rightarrow> int \<Rightarrow> World \<Rightarrow> (error + string list) \<times> World" where
  "cache_CleanExpiredUsers activeUIDs expirationDate w =
     (case fails w CacheCleanExpiredUsers of
        Some e \<Rightarrow> (Inl e, w)
      | None \<Rightarrow>
          (case dbFile w of
             Database c \<Rightarrow>
               (case (userByID c, userByName c) of
                  (Some ui, Some un) \<Rightarrow>
                    (case expiredUsers activeUIDs expirationDate ui of
                       Inl e \<Rightarrow> (Inl e, w)
                     | Inr us \<Rightarrow>
                         (case deleteUsers us (ui, un) of
                            (ui', un') \<Rightarrow>
                              (Inr (map Name us),
                               w\<lparr>dbFile := Database
                                   (c\<lparr>userByID := Some ui', userByName := Some un'\<rparr>)\<rparr>)))
                | _ \<Rightarrow> (Inl (corrupted ''bucket not found''), w))
           | _ \<Rightarrow> (Inl (ErrorString ''database not open''), w)))"

text \<open>The names of the users in the store, for \<open>localgroups.Clean\<close>.\<close>

definition storedUserNames :: "World \<Rightarrow> string list" where
  "storedUserNames w =
     (case dbFile w of
        Database c \<Rightarrow>
          (case userByName c of
             Some un \<Rightarrow> List.map_filter (\<lambda>(k, v). case k of KeyString n \<Rightarrow> Some n | _ \<Rightarrow> None) un
           | None \<Rightarrow> [])
      | _ \<Rightarrow> [])"

definition localgroups_Update :: "string \<Rightarrow> string list \<Rightarrow> World \<Rightarrow> error option \<times> World" where
  "localgroups_Update username groups w =
     (case fails w LocalGroupsUpdate of
        Some e \<Rightarrow> (Some e, w)
      | None \<Rightarrow>
          (None,
           w\<lparr>localMembers :=
               filter (\<lambda>(u, g). u \<noteq> username) (localMembers w) @ map (Pair username) groups\<rparr>))"

definition localgroups_CleanUser :: "string \<Rightarrow> World \<Rightarrow> error option \<times> World" where
  "localgroups_CleanUser username w =
     (case fails w LocalGroupsCleanUser of
        Some e \<Rightarrow> (Some e, w)
      | None \<Rightarrow> (None, w\<lparr>localMembers := filter (\<lambda>(u, g). u \<noteq> username) (localMembers w)\<rparr>))"

definition localgroups_Clean :: "World \<Rightarrow> error option \<times> World" where
  "localgroups_Clean w =
     (case fails w LocalGroupsClean of
        Some e \<Rightarrow> (Some e, w)
      | None \<Rightarrow>
          (None,
           w\<lparr>localMembers := filter (\<lambda>(u, g). u \<in> set (storedUserNames w)) (localMembers w)\<rparr>))"

text \<open>
  The marker file through the standard library: \<open>os.Stat\<close> finds it or not,
  \<open>os.WriteFile\<close> creates it, \<open>os.Remove\<close> removes it and fails when it is not there.
\<close>

definition os_WriteFile :: "World \<Rightarrow> error option \<times> World" where
  "os_WriteFile w =
     (case fails w OsWriteFile of
        Some e \<Rightarrow> (Some e, w)
      | None \<Rightarrow> (None, w\<lparr>dirtyFlag := True\<rparr>))"

definition os_Remove :: "World \<Rightarrow> error option \<times> World" where
  "os_Remove w =
     (case fails w OsRemove of
        Some e \<Rightarrow> (Some e, w)
      | None \<Rightarrow>
          if dirtyFlag w then (None, w\<lparr>dirtyFlag := False\<rparr>) else (Some ErrNotExist, w))"


section \<open>The user manager (internal/users/manager.go)\<close>

text \<open>
  Modelled from the spec: the types \<open>UserInfo\<close>, \<open>GroupInfo\<close> and \<open>UserEntry\<close> are
  declared outside the verified sources; their fields are the ones \<open>UpdateUser\<close> reads
  and the passwd fields of a user. The \<open>GID\<close> of a group is a pointer: \<open>None\<close> is \<open>nil\<close>.
\<close>

record GroupInfo =
  giName :: string
  giGID :: "int option"

record UserInfo =
  uiName :: string
  uiUID :: int
  uiGecos :: string
  uiDir :: string
  uiShell :: string
  uiGroups :: "GroupInfo list"

record UserEntry =
  ueName :: string
  ueUID :: int
  ueGID :: int
  ueGecos :: string
  ueDir :: string
  ueShell :: string

definition userEntryFromUserDB :: "UserPasswdShadow \<Rightarrow> UserEntry" where
  "userEntryFromUserDB u =
     \<lparr>ueName = Name u, ueUID = UID u, ueGID = GID u, ueGecos = Gecos u, ueDir = Dir u,
      ueShell = Shell u\<rparr>"

definition zeroUserEntry :: UserEntry where
  "zeroUserEntry = \<lparr>ueName = [], ueUID = 0, ueGID = 0, ueGecos = [], ueDir = [], ueShell = []\<rparr>"

record options =
  expirationDate :: int
  cleanOnNew :: bool
  cleanupInterval :: int
  procDir :: string

text \<open>\<open>defaultEntryExpiration\<close> (six months) and \<open>defaultCleanupInterval\<close>, in seconds.\<close>

definition defaultEntryExpiration :: int where
  "defaultEntryExpiration = 3600 * 24 * 30 * 6"

definition defaultCleanupInterval :: int where
  "defaultCleanupInterval = 3600 * 24"

definition WithUserExpirationDate :: "int \<Rightarrow> options \<Rightarrow> options" where
  "WithUserExpirationDate date opts = opts\<lparr>expirationDate := date\<rparr>"

text \<open>The database the open cache reads; without a database file no bucket is found.\<close>

definition openCache :: "World \<Rightarrow> Cache" where
  "openCache w =
     (case dbFile w of
        Database c \<Rightarrow> c
      | _ \<Rightarrow> \<lparr>userByID = None, userByName = None, groupByID = None, groupByName = None\<rparr>)"

definition isMarkedCorrupted :: "World \<Rightarrow> bool" where
  "isMarkedCorrupted w = dirtyFlag w"

definition markCorrupted :: "World \<Rightarrow> error option \<times> World" where
  "markCorrupted w = (if isMarkedCorrupted w then (None, w) else os_WriteFile w)"

text \<open>
  \<open>requestClearDatabase\<close> marks the database and offers a request on \<open>doClear\<close>; the
  cleanup routine takes it or the offer times out.
\<close>

definition requestClearDatabase :: "World \<Rightarrow> World" where
  "requestClearDatabase w =
     (case markCorrupted w of (err, w') \<Rightarrow> w'\<lparr>clearRequests := Suc (clearRequests w')\<rparr>)"

definition shouldClearDb :: "error option \<Rightarrow> World \<Rightarrow> World" where
  "shouldClearDb err w =
     (case err of
        Some e \<Rightarrow> if errorsIs e ErrNeedsClearing then requestClearDatabase w else w
      | None \<Rightarrow> w)"

definition Manager_clear :: "World \<Rightarrow> (error option \<times> World) outcome" where
  "Manager_clear w =
     (if \<not> cacheOpen w then Panics
      else case cache_Clear w of
        (Some err, w1) \<Rightarrow>
          Returns (Some (Errorf ''could not clear corrupted data: %v'' [] [err]), w1)
      | (None, w1) \<Rightarrow>
          (case os_Remove w1 of
             (rmErr, w2) \<Rightarrow>
               (case localgroups_Clean w2 of
                  (Some err, w3) \<Rightarrow>
                    Returns (Some (Errorf ''could not clean local groups: %v'' [] [err]), w3)
                | (None, w3) \<Rightarrow> Returns (None, w3))))"

text \<open>\<open>strconv.Atoi\<close> for a 64-bit \<open>int\<close>.\<close>

definition digitValue :: "char \<Rightarrow> nat option" where
  "digitValue c =
     (let n = of_char c :: nat in if 48 \<le> n \<and> n \<le> 57 then Some (n - 48) else None)"

fun digitsValue :: "string \<Rightarrow> nat \<Rightarrow> nat option" where
  "digitsValue [] acc = Some acc"
| "digitsValue (c # cs) acc =
     (case digitValue c of None \<Rightarrow> None | Some d \<Rightarrow> digitsValue cs (acc * 10 + d))"

definition Atoi :: "string \<Rightarrow> int option" where
  "Atoi s =
     (case s of
        [] \<Rightarrow> None
      | c # cs \<Rightarrow>
          if c = CHR ''-'' then
            (case (if cs = [] then None else digitsValue cs 0) of
               None \<Rightarrow> None
             | Some n \<Rightarrow> if n \<le> 2 ^ 63 then Some (- int n) else None)
          else
            (case (if c = CHR ''+'' then (if cs = [] then None else digitsValue cs 0)
                   else digitsValue s 0) of
               None \<Rightarrow> None
             | Some n \<Rightarrow> if n < 2 ^ 63 then Some (int n) else None))"

fun uidLoop :: "(string \<times> fileInfo) list \<Rightarrow> nat list \<Rightarrow> error + nat list" where
  "uidLoop [] uids = Inr uids"
| "uidLoop ((name, info) # rest) uids =
     (case Atoi name of
        None \<Rightarrow> uidLoop rest uids
      | Some pid \<Rightarrow>
          (case info of
             InfoError err \<Rightarrow> if errorsIs err ErrNotExist then uidLoop rest uids else Inl err
           | InfoNoStat \<Rightarrow>
               Inl (Errorf ''could not get ownership of file %q'' [ArgString name] [])
           | InfoStat uid \<Rightarrow> uidLoop rest (List.insert uid uids)))"

definition getUIDsOfRunningProcesses :: "World \<Rightarrow> error + nat list" where
  "getUIDsOfRunningProcesses w =
     (case (case fails w OsReadDir of
              Some e \<Rightarrow> Inl e
            | None \<Rightarrow> uidLoop (procEntries w) []) of
        Inl err \<Rightarrow> Inl (OnError ''could not get UIDs of running processes'' [] err)
      | Inr uids \<Rightarrow> Inr uids)"

text \<open>The loop of \<open>cleanExpiredUserData\<close>; it keeps the error of the last user.\<close>

fun cleanUsersLoop :: "string list \<Rightarrow> error option \<Rightarrow> World \<Rightarrow> error option \<times> World" where
  "cleanUsersLoop [] err w = (err, w)"
| "cleanUsersLoop (u # us) err w =
     (case localgroups_CleanUser u w of (err', w') \<Rightarrow> cleanUsersLoop us err' w')"

definition cleanExpiredUserData :: "options \<Rightarrow> World \<Rightarrow> (error option \<times> World) outcome" where
  "cleanExpiredUserData opts w =
     (case getUIDsOfRunningProcesses w of
        Inl err \<Rightarrow> Returns (Some (Errorf ''could not get list of active users: %v'' [] [err]), w)
      | Inr activeUIDs \<Rightarrow>
          if \<not> cacheOpen w then Panics
          else case cache_CleanExpiredUsers (map int activeUIDs) (expirationDate opts) w of
            (Inl err, w1) \<Rightarrow>
              Returns (Some (Errorf ''could not clean database of expired users: %v'' [] [err]), w1)
          | (Inr cleanedUsers, w1) \<Rightarrow> Returns (cleanUsersLoop cleanedUsers None w1))"

text \<open>The loop \<open>for i := 0; i < 2; i++\<close> of \<open>NewManager\<close>, with the rounds left.\<close>

fun openLoop :: "nat \<Rightarrow> World \<Rightarrow> error + World" where
  "openLoop 0 w = Inr w"
| "openLoop (Suc n) w =
     (case cache_New w of
        (Some err, w1) \<Rightarrow>
          if errorsIs err ErrNeedsClearing then
            (case cache_RemoveDb w1 of
               (Some err', w2) \<Rightarrow> Inl (Errorf ''could not clear database: %v'' [] [err'])
             | (None, w2) \<Rightarrow>
                 (case localgroups_Clean w2 of (cleanErr, w3) \<Rightarrow> openLoop n w3))
          else Inl err
      | (None, w1) \<Rightarrow> Inr (w1\<lparr>cacheOpen := True\<rparr>))"

text \<open>
  \<open>NewManager\<close>: the result is an error or the world with the manager in it. The cleanup
  routine it starts runs beside the manager and is not part of the call.
\<close>

definition NewManager :: "(options \<Rightarrow> options) list \<Rightarrow> World \<Rightarrow> (error + World) outcome" where
  "NewManager args w0 =
     (let opts = fold (\<lambda>arg acc. arg acc) args
                   \<lparr>expirationDate = clock w0 - defaultEntryExpiration, cleanOnNew = True,
                    cleanupInterval = defaultCleanupInterval, procDir = ''/proc/''\<rparr>
      in case openLoop 2 (w0\<lparr>cacheOpen := False\<rparr>) of
           Inl err \<Rightarrow> Returns (Inl err)
         | Inr w1 \<Rightarrow>
             (case (if isMarkedCorrupted w1 then Manager_clear w1 else Returns (None, w1)) of
                Panics \<Rightarrow> Panics
              | Returns (Some err, w2) \<Rightarrow>
                  Returns (Inl (Errorf ''could not clear corrupted data: %v'' [] [err]))
              | Returns (None, w2) \<Rightarrow>
                  if cleanOnNew opts then
                    (case cleanExpiredUserData opts w2 of
                       Panics \<Rightarrow> Panics
                     | Returns (cleanErr, w3) \<Rightarrow> Returns (Inr w3))
                  else Returns (Inr w2)))"

text \<open>The loop of \<open>UpdateUser\<close> over the groups of the user.\<close>

fun groupLoop ::
  "string \<Rightarrow> GroupInfo list \<Rightarrow> GroupDB list \<Rightarrow> string list
   \<Rightarrow> error + (GroupDB list \<times> string list)" where
  "groupLoop username [] groupContents localGroups = Inr (groupContents, localGroups)"
| "groupLoop username (g # gs) groupContents localGroups =
     (if giName g = [] then
        Inl (Errorf ''empty group name for user %q'' [ArgString username] [])
      else case giGID g of
        None \<Rightarrow> groupLoop username gs groupContents (localGroups @ [giName g])
      | Some gid \<Rightarrow>
          groupLoop username gs (groupContents @ [NewGroupDB (giName g) gid []]) localGroups)"

definition UpdateUser :: "UserInfo \<Rightarrow> World \<Rightarrow> (error option \<times> World) outcome" where
  "UpdateUser u w =
     (let failed = (\<lambda>err. Some (OnError ''failed to update user %q'' [ArgString (uiName u)] err))
      in if uiName u = [] then Returns (failed (ErrorString ''empty username''), w)
         else case uiGroups u of
           [] \<Rightarrow>
             Returns (failed (Errorf ''no group provided for user %s (%v)''
                                [ArgString (uiName u), ArgInt (uiUID u)] []), w)
         | g0 # gs \<Rightarrow>
             (case giGID g0 of
                None \<Rightarrow>
                  Returns (failed (Errorf ''no gid provided for default group %q''
                                     [ArgString (giName g0)] []), w)
              | Some gid0 \<Rightarrow>
                  (case groupLoop (uiName u) (uiGroups u) [] [] of
                     Inl err \<Rightarrow> Returns (failed err, w)
                   | Inr (groupContents, localGroups) \<Rightarrow>
                       if \<not> cacheOpen w then Panics
                       else case cache_UpdateUserEntry
                                   (NewUserDB (uiName u) (uiUID u) gid0 (uiGecos u) (uiDir u)
                                      (uiShell u) (clock w))
                                   groupContents w of
                         (Some err, w1) \<Rightarrow> Returns (failed err, shouldClearDb (Some err) w1)
                       | (None, w1) \<Rightarrow>
                           (case localgroups_Update (uiName u) localGroups w1 of
                              (Some err, w2) \<Rightarrow>
                                (case cache_DeleteUser (uiUID u) w2 of
                                   (delErr, w3) \<Rightarrow>
                                     Returns (map_option
                                                (OnError ''failed to update user %q''
                                                   [ArgString (uiName u)])
                                                (errorsJoin [Some err, delErr]),
                                              shouldClearDb delErr w3))
                            | (None, w2) \<Rightarrow> Returns (None, w2)))))"

definition Manager_UserByName ::
  "string \<Rightarrow> World \<Rightarrow> ((UserEntry \<times> error option) \<times> World) outcome" where
  "Manager_UserByName username w =
     (if \<not> cacheOpen w then Panics
      else case Cache_UserByName (openCache w) username of
        (usr, Some err) \<Rightarrow> Returns ((zeroUserEntry, Some err), shouldClearDb (Some err) w)
      | (usr, None) \<Rightarrow> Returns ((userEntryFromUserDB usr, None), w))"

definition Manager_UserByID ::
  "int \<Rightarrow> World \<Rightarrow> ((UserEntry \<times> error option) \<times> World) outcome" where
  "Manager_UserByID uid w =
     (if \<not> cacheOpen w then Panics
      else case Cache_UserByID (openCache w) uid of
        (usr, Some err) \<Rightarrow> Returns ((zeroUserEntry, Some err), shouldClearDb (Some err) w)
      | (usr, None) \<Rightarrow> Returns ((userEntryFromUserDB usr, None), w))"

definition Manager_AllUsers ::
  "World \<Rightarrow> ((UserEntry list \<times> error option) \<times> World) outcome" where
  "Manager_AllUsers w =
     (if \<not> cacheOpen w then Panics
      else case Cache_AllUsers (openCache w) of
        (usrs, Some err) \<Rightarrow> Returns (([], Some err), shouldClearDb (Some err) w)
      | (usrs, None) \<Rightarrow> Returns ((map userEntryFromUserDB usrs, None), w))"


text \<open>
  The groups of a user that \<open>UpdateUser\<close> hands to the cache, and the names it hands to
  \<open>localgroups.Update\<close>.
\<close>

fun groupsWithGID :: "GroupInfo list \<Rightarrow> GroupDB list" where
  "groupsWithGID [] = []"
| "groupsWithGID (g # gs) =
     (case giGID g of
        None \<Rightarrow> groupsWithGID gs
      | Some gid \<Rightarrow> NewGroupDB (giName g) gid [] # groupsWithGID gs)"

definition persistedGroups :: "UserInfo \<Rightarrow> GroupDB list" where
  "persistedGroups u = groupsWithGID (uiGroups u)"

definition localOnlyGroups :: "UserInfo \<Rightarrow> string list" where
  "localOnlyGroups u = map giName (filter (\<lambda>g. giGID g = None) (uiGroups u))"

section \<open>Worlds and users for the examples\<close>

definition noFault :: "op \<Rightarrow> error option" where
  "noFault operation = None"

definition garbledCache :: Cache where
  "garbledCache =
     \<lparr>userByID = Some [(KeyInt 70000, Garbled ''invalid character'')], userByName = Some [],
      groupByID = Some [], groupByName = Some []\<rparr>"

definition markedWorld :: World where
  "markedWorld =
     \<lparr>dbFile = Database garbledCache, cacheOpen = False, dirtyFlag = True,
      localMembers = [(''bob'', ''sudo'')],
      procEntries = [(''1'', InfoStat 0), (''self'', InfoNoStat)],
      clock = 1700000000, clearRequests = 0, fails = noFault\<rparr>"

definition clearedWorld :: World where
  "clearedWorld =
     \<lparr>dbFile = Database emptyCache, cacheOpen = True, dirtyFlag = False,
      localMembers = [],
      procEntries = [(''1'', InfoStat 0), (''self'', InfoNoStat)],
      clock = 1700000000, clearRequests = 0, fails = noFault\<rparr>"

definition removeFails :: "op \<Rightarrow> error option" where
  "removeFails operation =
     (if operation = OsRemove then Some (ErrorString ''operation not permitted'') else None)"

definition stuckMarkerWorld :: World where
  "stuckMarkerWorld = markedWorld\<lparr>fails := removeFails\<rparr>"

definition stuckClearedWorld :: World where
  "stuckClearedWorld = clearedWorld\<lparr>dirtyFlag := True, fails := removeFails\<rparr>"

definition localUpdateFails :: "op \<Rightarrow> error option" where
  "localUpdateFails operation =
     (if operation = LocalGroupsUpdate then Some (ErrorString ''gpasswd failed'') else None)"

definition alice :: UserInfo where
  "alice =
     \<lparr>uiName = ''alice'', uiUID = 70001, uiGecos = ''Alice'', uiDir = ''/home/alice'',
      uiShell = ''/bin/sh'',
      uiGroups = [\<lparr>giName = ''staff'', giGID = Some 80001\<rparr>,
                  \<lparr>giName = ''sudo'', giGID = None\<rparr>]\<rparr>"


definition aliceDB :: UserDB where
  "aliceDB = NewUserDB ''alice'' 70001 80001 ''Alice'' ''/home/alice'' ''/bin/sh'' 1700000000"

definition staffDB :: GroupDB where
  "staffDB = NewGroupDB ''staff'' 80001 []"

definition aliceCache :: Cache where
  "aliceCache =
     \<lparr>userByID = Some [(KeyInt 70001, Encoded aliceDB)],
      userByName = Some [(KeyString ''alice'', Encoded aliceDB)],
      groupByID = Some [(KeyInt 80001, Encoded staffDB)],
      groupByName = Some [(KeyString ''staff'', Encoded staffDB)]\<rparr>"

definition aliceWorld :: World where
  "aliceWorld = clearedWorld\<lparr>dbFile := Database aliceCache, localMembers := [(''alice'', ''sudo'')]\<rparr>"

definition noGidUser :: UserInfo where
  "noGidUser = alice\<lparr>uiGroups := [\<lparr>giName = ''staff'', giGID = None\<rparr>]\<rparr>"


definition aliceEntry :: UserEntry where
  "aliceEntry =
     \<lparr>ueName = ''alice'', ueUID = 70001, ueGID = 80001, ueGecos = ''Alice'',
      ueDir = ''/home/alice'', ueShell = ''/bin/sh''\<rparr>"

definition garbledWorld :: World where
  "garbledWorld = markedWorld\<lparr>cacheOpen := True, dirtyFlag := False\<rparr>"

definition noBucketWorld :: World where
  "noBucketWorld = clearedWorld\<lparr>dbFile := NoFile\<rparr>"

definition failingWorld :: World where
  "failingWorld = clearedWorld\<lparr>fails := localUpdateFails\<rparr>"

definition writtenWorld :: World where
  "writtenWorld = failingWorld\<lparr>dbFile := Database aliceCache\<rparr>"

definition rolledBackWorld :: World where
  "rolledBackWorld =
     failingWorld\<lparr>dbFile := Database
       \<lparr>userByID = Some [], userByName = Some [],
        groupByID = Some [(KeyInt 80001, Encoded staffDB)],
        groupByName = Some [(KeyString ''staff'', Encoded staffDB)]\<rparr>\<rparr>"

section \<open>Properties\<close>

subsection \<open>The ID generator\<close>

text \<open>The test vector of the standard: the digest of \<open>abc\<close>.\<close>

lemma Sum256_abc:
  "Sum256 (bytesOf ''abc'') =
     [186, 120, 22, 191, 143, 1, 207, 234, 65, 65, 64, 222, 93, 174, 34, 35,
      176, 3, 97, 163, 150, 23, 122, 156, 180, 16, 255, 97, 242, 0, 21, 173]"
  by code_simp

lemma hashNumber_less: "hashNumber h < maxID"
  unfolding hashNumber_def maxID_def by (rule word_mod_less_divisor) simp

lemma rehashLoop_exits:
  "minID \<le> hashNumber ((Sum256 ^^ k) hash) \<Longrightarrow> number = hashNumber hash \<Longrightarrow>
   \<exists>n. rehashLoop hash number = Some n \<and> minID \<le> n \<and> n < maxID"
proof (induction k arbitrary: hash number)
  case 0
  then have "\<not> number < minID"
    by (simp add: not_less)
  then have "rehashLoop hash number = Some number"
    by (subst rehashLoop.simps) simp
  with 0 show ?case
    by (simp add: hashNumber_less)
next
  case (Suc k)
  show ?case
  proof (cases "number < minID")
    case True
    from Suc.prems have "minID \<le> hashNumber ((Sum256 ^^ k) (Sum256 hash))"
      by (simp add: funpow_swap1)
    from Suc.IH [OF this refl] True show ?thesis
      by (subst rehashLoop.simps) simp
  next
    case False
    then have "rehashLoop hash number = Some number"
      by (subst rehashLoop.simps) simp
    moreover from False have "minID \<le> number"
      by (simp add: not_less)
    ultimately show ?thesis
      using Suc.prems(2) by (simp add: hashNumber_less)
  qed
qed

lemma rehashLoop_returns:
  assumes "rehashLoop hash number = Some n"
  shows "number = hashNumber hash \<longrightarrow> (\<exists>k. n = hashNumber ((Sum256 ^^ k) hash) \<and> minID \<le> n)"
  using assms
proof (induction rule: rehashLoop.raw_induct [rotated 1, consumes 1])
  case (1 loop hash number n)
  show ?case
  proof (cases "number < minID")
    case True
    with 1(2) have "loop (Sum256 hash) (hashNumber (Sum256 hash)) = Some n"
      by simp
    from 1(1) [OF this] obtain k where
      "n = hashNumber ((Sum256 ^^ k) (Sum256 hash))" and "minID \<le> n"
      by auto
    then have "n = hashNumber ((Sum256 ^^ Suc k) hash) \<and> minID \<le> n"
      by (simp add: funpow_swap1)
    then show ?thesis
      by blast
  next
    case False
    with 1(2) have "n = number"
      by simp
    with False have "number = hashNumber hash \<longrightarrow> n = hashNumber ((Sum256 ^^ 0) hash) \<and> minID \<le> n"
      by (auto simp: not_less)
    then show ?thesis
      by blast
  qed
qed

lemma GenerateID_returns_iff:
  "(\<exists>n. GenerateID mapLower s = Some n)
   \<longleftrightarrow> (\<exists>k. minID \<le> hashNumber ((Sum256 ^^ k) (Sum256 (bytesOf (ToLower mapLower s)))))"
proof
  assume "\<exists>n. GenerateID mapLower s = Some n"
  then obtain m where "rehashLoop (Sum256 (bytesOf (ToLower mapLower s)))
          (hashNumber (Sum256 (bytesOf (ToLower mapLower s)))) = Some m"
    by (auto simp: GenerateID_def Let_def)
  from rehashLoop_returns [OF this]
  show "\<exists>k. minID \<le> hashNumber ((Sum256 ^^ k) (Sum256 (bytesOf (ToLower mapLower s))))"
    by auto
next
  assume "\<exists>k. minID \<le> hashNumber ((Sum256 ^^ k) (Sum256 (bytesOf (ToLower mapLower s))))"
  then obtain k where "minID \<le> hashNumber ((Sum256 ^^ k) (Sum256 (bytesOf (ToLower mapLower s))))"
    by blast
  from rehashLoop_exits [OF this refl]
  show "\<exists>n. GenerateID mapLower s = Some n"
    by (auto simp: GenerateID_def Let_def)
qed

lemma uint_bounds:
  "minID \<le> n \<Longrightarrow> n < maxID \<Longrightarrow> 65536 \<le> uint n \<and> uint n < 2 ^ 31 - 1"
  unfolding minID_def maxID_def by (simp add: word_le_def word_less_def)

text \<open>
  The loop of \<open>GenerateID\<close> ends exactly when a digest of the chain
  \<open>SHA-256(lowercase(s))\<close>, \<open>SHA-256\<close> of that, ... reduces to a number that is at least
  65536 (\<open>GenerateID_returns_iff\<close>); a value it returns is at least 65536 and below
  \<open>2^31 - 1\<close>.
\<close>

lemma GenerateID_value_bounds:
  assumes "GenerateID mapLower s = Some n"
  shows "65536 \<le> n \<and> n < 2 ^ 31 - 1"
proof -
  from assms obtain x where
    x: "rehashLoop (Sum256 (bytesOf (ToLower mapLower s)))
          (hashNumber (Sum256 (bytesOf (ToLower mapLower s)))) = Some x"
    and n: "n = uint x"
    by (auto simp: GenerateID_def Let_def)
  from rehashLoop_returns [OF x] obtain k where
    "x = hashNumber ((Sum256 ^^ k) (Sum256 (bytesOf (ToLower mapLower s))))" and "minID \<le> x"
    by auto
  then have "minID \<le> x" and "x < maxID"
    by (simp_all add: hashNumber_less)
  from uint_bounds [OF this] n show ?thesis
    by simp
qed

lemma of_char_lowerByte_upperByte:
  "(of_char c :: nat) < 128 \<Longrightarrow> lowerByte (upperByte c) = lowerByte c"
  by (auto simp: lowerByte_def upperByte_def Let_def)

lemma of_char_upperByte_less:
  "(of_char c :: nat) < 128 \<Longrightarrow> (of_char (upperByte c) :: nat) < 128"
  by (auto simp: upperByte_def Let_def)

lemma isASCII_map_upperByte: "isASCII s \<Longrightarrow> isASCII (map upperByte s)"
  by (induction s) (simp_all add: isASCII_def of_char_upperByte_less)

lemma ToLower_ToUpper_ascii:
  "isASCII s \<Longrightarrow> ToLower mapLower (ToUpper mapUpper s) = ToLower mapLower s"
proof -
  assume a: "isASCII s"
  then have "map lowerByte (map upperByte s) = map lowerByte s"
    by (induction s) (simp_all add: isASCII_def of_char_lowerByte_upperByte)
  with a show ?thesis
    by (simp add: ToLower_def ToUpper_def isASCII_map_upperByte)
qed

lemma hashNumber_i: "hashNumber (Sum256 (bytesOf ''i'')) = 1585257331"
  by code_simp

lemma hashNumber_dotlessI: "hashNumber (Sum256 (bytesOf dotlessI)) = 1414250920"
  by code_simp

lemma isASCII_dotlessI: "\<not> isASCII dotlessI"
  by (simp add: isASCII_def dotlessI_def)

lemma rehashLoop_done: "minID \<le> number \<Longrightarrow> rehashLoop hash number = Some number"
  by (subst rehashLoop.simps) (simp add: not_less [symmetric])

text \<open>
  C6 (as stated) fails beyond ASCII: \<open>strings.ToUpper\<close> maps the dotless i (U+0131) to
  \<open>I\<close>, whose lower case is \<open>i\<close>, while the lower case of the dotless i is itself; the
  two names hash to different identifiers.
\<close>

theorem GenerateID_upper_counterexample:
  "GenerateID mapLowerDotless dotlessI = Some 1414250920
   \<and> ToUpper mapUpperDotless dotlessI = ''I''
   \<and> GenerateID mapLowerDotless (ToUpper mapUpperDotless dotlessI) = Some 1585257331
   \<and> GenerateID mapLowerDotless (ToUpper mapUpperDotless dotlessI)
       \<noteq> GenerateID mapLowerDotless dotlessI"
proof -
  have lo: "ToLower mapLowerDotless dotlessI = dotlessI"
    by (simp add: ToLower_def isASCII_dotlessI mapLowerDotless_def)
  have up: "ToUpper mapUpperDotless dotlessI = ''I''"
    by (simp add: ToUpper_def isASCII_dotlessI mapUpperDotless_def)
  have lo': "ToLower mapLowerDotless ''I'' = ''i''"
    by code_simp
  have a: "GenerateID mapLowerDotless dotlessI = Some 1414250920"
    by (simp add: GenerateID_def lo hashNumber_dotlessI rehashLoop_done minID_def)
  have b: "GenerateID mapLowerDotless ''I'' = Some 1585257331"
    by (simp add: GenerateID_def lo' hashNumber_i rehashLoop_done minID_def)
  show ?thesis
    by (simp add: a b up)
qed


text \<open>
  C6 (as the code has it): \<open>GenerateID(s)\<close> equals \<open>GenerateID(uppercase(s))\<close> for
  every string \<open>s\<close> whose upper case has the lower case of \<open>s\<close>; every ASCII string is
  one, whatever the Unicode case tables are.
\<close>

theorem GenerateID_upper_ascii:
  "isASCII s \<or> ToLower mapLower (ToUpper mapUpper s) = ToLower mapLower s \<Longrightarrow>
   GenerateID mapLower (ToUpper mapUpper s) = GenerateID mapLower s"
  by (auto simp: GenerateID_def ToLower_ToUpper_ascii)

theorem GenerateID_upper_ascii_witness:
  "(isASCII ''Alice''
      \<or> ToLower mapLowerDotless (ToUpper mapUpperDotless ''Alice'')
          = ToLower mapLowerDotless ''Alice'')
   \<and> isASCII ''Alice''
   \<and> GenerateID mapLowerDotless (ToUpper mapUpperDotless ''Alice'')
       = GenerateID mapLowerDotless ''Alice''"
proof -
  have a: "isASCII ''Alice''"
    by (simp add: isASCII_def)
  then have h: "isASCII ''Alice''
      \<or> ToLower mapLowerDotless (ToUpper mapUpperDotless ''Alice'')
          = ToLower mapLowerDotless ''Alice''"
    by simp
  show ?thesis
    using a h GenerateID_upper_ascii [OF h] by simp
qed

subsection \<open>Starting a broker session\<close>


lemma langLoop_last:
  "langLoop getenv es lang = last (lang # filter (\<lambda>l. l \<noteq> []) (map getenv es))"
  by (induction es arbitrary: lang) (simp_all add: Let_def)

text \<open>
  C7 (as stated) fails: with \<open>LANG=en_US.UTF-8\<close> and \<open>LC_ALL=fr_FR.UTF-8\<close> the first
  non-empty value gives \<open>en_US\<close>, but the request that \<open>startBrokerSession\<close> sends carries
  \<open>fr_FR\<close>: a broker that answers with the \<open>lang\<close> it was sent as session ID makes
  \<open>startBrokerSession\<close> return the session \<open>fr_FR\<close>.
\<close>

theorem startBrokerSession_lang_first_counterexample:
  "startBrokerSession echoBroker envFrench ''remote1'' ''alice''
     = SessionStarted ''fr_FR'' ''remote1''
   \<and> firstNonEmptyLang envFrench = ''en_US''
   \<and> echoBroker \<lparr>BrokerId = ''remote1'', Username = ''alice'',
                   Lang = firstNonEmptyLang envFrench\<rparr>
       = Inr \<lparr>SessionId = ''en_US'', EncryptionKey = ''remote1''\<rparr>
   \<and> startBrokerSession echoBroker envFrench ''remote1'' ''alice''
       \<noteq> SessionStarted (firstNonEmptyLang envFrench) ''remote1''"
  by (simp add: startBrokerSession_def echoBroker_def sbReq_def sessionLang_def
      firstNonEmptyLang_def envFrench_def TrimSuffix_def HasSuffix_def)

text \<open>
  C7 (as the code has it): for every broker other than \<open>local\<close>, every environment and
  every behaviour of the remote call, \<open>startBrokerSession\<close> calls \<open>SelectBroker\<close> with
  the request made of the broker ID, the user name and, as \<open>lang\<close>, the last non-empty
  value among \<open>LANG\<close>, \<open>LC_MESSAGES\<close>, \<open>LC_ALL\<close> (so \<open>LC_ALL\<close> overrides \<open>LC_MESSAGES\<close>,
  which overrides \<open>LANG\<close>), or \<open>C\<close> when all three are empty, with one trailing \<open>.UTF-8\<close>
  removed; what it returns is decided by the answer to that request. For the broker
  \<open>local\<close> no request is sent.
\<close>

theorem startBrokerSession_lang_last_nonempty:
  assumes "brokerID \<noteq> ''local''"
  shows "startBrokerSession SelectBroker getenv brokerID username =
          (case SelectBroker
                  \<lparr>BrokerId = brokerID, Username = username,
                   Lang = TrimSuffix
                            (last (''C'' # filter (\<lambda>l. l \<noteq> [])
                               (map getenv [''LANG'', ''LC_MESSAGES'', ''LC_ALL''])))
                            ''.UTF-8''\<rparr> of
             Inl err \<Rightarrow> pamSystemError (''can't select broker: '' @ err)
           | Inr sbResp \<Rightarrow>
               if SessionId sbResp = [] then pamSystemError ''no session ID returned by broker''
               else if EncryptionKey sbResp = [] then
                 pamSystemError ''no encryption key returned by broker''
               else SessionStarted (SessionId sbResp) (EncryptionKey sbResp))
         \<and> startBrokerSession SelectBroker getenv ''local'' username = pamIgnore []"
  using assms unfolding startBrokerSession_def sbReq_def sessionLang_def langLoop_last
  by simp

theorem startBrokerSession_lang_last_nonempty_witness:
  "''remote1'' \<noteq> ''local''
   \<and> TrimSuffix
        (last (''C'' # filter (\<lambda>l. l \<noteq> [])
           (map envFrench [''LANG'', ''LC_MESSAGES'', ''LC_ALL''])))
        ''.UTF-8'' = ''fr_FR''
   \<and> startBrokerSession echoBroker envFrench ''remote1'' ''alice''
       = SessionStarted ''fr_FR'' ''remote1''
   \<and> startBrokerSession echoBroker envFrench ''local'' ''alice'' = pamIgnore []"
proof -
  have h: "''remote1'' \<noteq> ''local''"
    by simp
  show ?thesis
    using startBrokerSession_lang_last_nonempty [OF h, of echoBroker envFrench "''alice''"]
    by (simp add: echoBroker_def envFrench_def TrimSuffix_def HasSuffix_def)
qed


subsection \<open>The GDM session driver\<close>

declare Update.simps [simp del]



lemma requestsIn_emitEventSync [simp]: "requestsIn (sendEvent (emitEventSync env ev)) = 0"
  by (simp add: emitEventSync_def split: option.splits)








text \<open>
  C2 (as stated) fails in three ways. An unknown verdict whose data does not decode ends
  in a system error, not in \<open>Denied\<close>; once the conversations are stopped nothing is
  mapped at all; and a \<open>Cancelled\<close> result is not forwarded as it came: it is turned into
  a cancellation event that has lost the result's message.
\<close>

theorem gdmModel_auth_result_counterexample:
  "Update exampleEnv waitingModel (isAuthenticatedResultReceived (AuthOther ''maybe'') ''not json'')
     = Returns (waitingModel, [],
                sendEvent (pamError ErrSystem ''invalid json data from provider''))
   \<and> Update exampleEnv stoppedModel (isAuthenticatedResultReceived (AuthOther ''maybe'') ''x'')
     = Returns (stoppedModel, [], CmdNil)
   \<and> Update exampleEnv waitingModel (isAuthenticatedResultReceived AuthCancelled ''bye'')
     = Returns (waitingModel, [], sendEvent (isAuthenticatedCancelled []))
   \<and> Update exampleEnv waitingModel (isAuthenticatedResultReceived AuthCancelled ''bye'')
     \<noteq> Returns (waitingModel, [EventData_AuthEvent AuthCancelled ''bye''],
         sendEvent (emitEventSync exampleEnv (EventData_AuthEvent AuthCancelled ''bye'')))"
  by (simp add: waitingModel_def stoppedModel_def exampleEnv_def Update.simps)

text \<open>
  C2 (as the code has it): while the conversations are not stopped, an authentication
  result whose data \<open>dataToMsg\<close> decodes is handled by its verdict. A verdict that is none
  of the five is sent again as a \<open>Denied\<close> result whose data is
  \<open>{"message": m}\<close>, with \<open>m\<close> the JSON string of \<open>Access "verdict" is not valid\<close>.
  \<open>Granted\<close>, \<open>Denied\<close>, \<open>Retry\<close> and \<open>Next\<close> are emitted to GDM unchanged with the
  decoded message. \<open>Cancelled\<close> becomes a cancellation event without message.
\<close>

theorem gdmModel_auth_result:
  assumes "\<not> conversationsStopped m" and "dataToMsg env d = Inr authMsg"
  shows "Update env m (isAuthenticatedResultReceived (AuthOther a) d)
           = Returns (m, [], sendEvent (isAuthenticatedResultReceived AuthDenied
                 (''{\"message\": '' @ jsonMarshal env (''Access '' @ quote env a @ '' is not valid'')
                    @ ''}'')))
         \<and> (access \<in> {AuthGranted, AuthDenied, AuthRetry, AuthNext} \<longrightarrow>
              Update env m (isAuthenticatedResultReceived access d)
                = Returns (m, [EventData_AuthEvent access authMsg],
                   sendEvent (emitEventSync env (EventData_AuthEvent access authMsg))))
         \<and> Update env m (isAuthenticatedResultReceived AuthCancelled d)
              = Returns (m, [], sendEvent (isAuthenticatedCancelled []))"
  using assms by (auto simp: Update.simps invalidAccessMsg_def)

theorem gdmModel_auth_result_witness:
  "\<not> conversationsStopped waitingModel
   \<and> dataToMsg exampleEnv ''hello'' = Inr ''hello''
   \<and> Update exampleEnv waitingModel (isAuthenticatedResultReceived (AuthOther ''maybe'') ''hello'')
       = Returns (waitingModel, [], sendEvent (isAuthenticatedResultReceived AuthDenied
             (''{\"message\": '' @ quoteString (''Access '' @ quoteString ''maybe'' @ '' is not valid'')
                @ ''}'')))
   \<and> AuthRetry \<in> {AuthGranted, AuthDenied, AuthRetry, AuthNext}
   \<and> Update exampleEnv waitingModel (isAuthenticatedResultReceived AuthRetry ''hello'')
       = Returns (waitingModel, [EventData_AuthEvent AuthRetry ''hello''], sendEvent NilMsg)
   \<and> Update exampleEnv waitingModel (isAuthenticatedResultReceived AuthCancelled ''hello'')
       = Returns (waitingModel, [], sendEvent (isAuthenticatedCancelled []))"
proof -
  have h1: "\<not> conversationsStopped waitingModel"
    by (simp add: waitingModel_def)
  have h2: "dataToMsg exampleEnv ''hello'' = Inr ''hello''"
    by (simp add: exampleEnv_def)
  show ?thesis
    using h1 h2 gdmModel_auth_result [OF h1 h2, of "''maybe''" AuthRetry]
    by (simp add: exampleEnv_def emitEventSync_def)
qed


subsection \<open>The user manager and the cache\<close>


lemma errorsJoin_Some: "errorsJoin (Some e # rest) = Some (Join (e # List.map_filter id rest))"
  by (simp add: errorsJoin_def List.map_filter_simps)

text \<open>
  C8: \<open>UpdateUser\<close> returns an error and leaves the world as it was, so nothing is
  written to the store, whenever the user has an empty name or an empty list of groups.
\<close>

theorem UpdateUser_empty_name_or_no_group:
  "uiName u = [] \<or> uiGroups u = [] \<Longrightarrow> \<exists>err. UpdateUser u w = Returns (Some err, w)"
  by (auto simp: UpdateUser_def Let_def)

theorem UpdateUser_empty_name_or_no_group_witness:
  "(uiName (alice\<lparr>uiName := []\<rparr>) = [] \<or> uiGroups (alice\<lparr>uiName := []\<rparr>) = [])
   \<and> (\<exists>err. UpdateUser (alice\<lparr>uiName := []\<rparr>) clearedWorld = Returns (Some err, clearedWorld))
   \<and> (uiName (alice\<lparr>uiGroups := []\<rparr>) = [] \<or> uiGroups (alice\<lparr>uiGroups := []\<rparr>) = [])
   \<and> (\<exists>err. UpdateUser (alice\<lparr>uiGroups := []\<rparr>) clearedWorld = Returns (Some err, clearedWorld))"
proof -
  have h1: "uiName (alice\<lparr>uiName := []\<rparr>) = [] \<or> uiGroups (alice\<lparr>uiName := []\<rparr>) = []"
    by simp
  have h2: "uiName (alice\<lparr>uiGroups := []\<rparr>) = [] \<or> uiGroups (alice\<lparr>uiGroups := []\<rparr>) = []"
    by simp
  show ?thesis
    using h1 h2 UpdateUser_empty_name_or_no_group [OF h1, of clearedWorld]
      UpdateUser_empty_name_or_no_group [OF h2, of clearedWorld]
    by blast
qed

lemma groupLoop_split:
  "list_all (\<lambda>g. giName g \<noteq> []) gs \<Longrightarrow>
   groupLoop username gs groupContents localGroups =
     Inr (groupContents @ groupsWithGID gs,
          localGroups @ map giName (filter (\<lambda>g. giGID g = None) gs))"
proof (induction gs arbitrary: groupContents localGroups)
  case Nil
  then show ?case by simp
next
  case (Cons g gs)
  then show ?case
    by (cases "giGID g") simp_all
qed

lemma set_groupsWithGID:
  "set (groupsWithGID gs) =
     {NewGroupDB (giName g) gid [] | g gid. g \<in> set gs \<and> giGID g = Some gid}"
  by (induction gs) (auto split: option.splits)

lemma groupLoop_user:
  "list_all (\<lambda>g. giName g \<noteq> []) (uiGroups u) \<Longrightarrow>
   groupLoop (uiName u) (uiGroups u) [] [] = Inr (persistedGroups u, localOnlyGroups u)"
  by (simp add: groupLoop_split persistedGroups_def localOnlyGroups_def)


lemma map_of_putEntry: "map_of (putEntry k v b) k = Some (Encoded v)"
  by (simp add: putEntry_def)

lemma map_of_deleteEntry: "map_of (deleteEntry k b) k = None"
  by (induction b) (auto simp: deleteEntry_def)

lemma matchesTarget_refl: "matchesTarget e e"
  by (cases e) simp_all

lemma errorsIs_refl: "errorsIs e e"
  by (cases e) (simp_all add: matchesTarget_refl)

lemma errorsIs_NoDataFound_not_clearing:
  "\<not> errorsIs (NoDataFoundError k b) ErrNeedsClearing"
  by simp

lemma cache_UpdateUserEntry_written:
  assumes "cache_UpdateUserEntry usr groups w = (None, w1)"
  shows "\<exists>c ui un gi gn.
           fails w CacheUpdateUserEntry = None \<and> dbFile w = Database c
           \<and> userByID c = Some ui \<and> userByName c = Some un
           \<and> groupByID c = Some gi \<and> groupByName c = Some gn
           \<and> w1 = w\<lparr>dbFile := Database
                    \<lparr>userByID = Some (putEntry (KeyInt (UID usr)) usr ui),
                     userByName = Some (putEntry (KeyString (Name usr)) usr un),
                     groupByID = Some (fst (putGroups groups (gi, gn))),
                     groupByName = Some (snd (putGroups groups (gi, gn)))\<rparr>\<rparr>"
  using assms
  by (auto simp: cache_UpdateUserEntry_def
      split: option.splits dbFile.splits prod.splits)

text \<open>
  C9: for a user with a name and at least one group, a \<open>nil\<close> GID on the first (default)
  group is an error and nothing is written. With a GID on the first group, non-empty
  group names, an open cache and no failure of the cache or of the local groups,
  \<open>UpdateUser\<close> succeeds whatever the GIDs of the later groups are: the groups written
  to the cache are exactly those with a GID, and the names of the groups with a \<open>nil\<close>
  GID become the local groups of the user.
\<close>

theorem UpdateUser_default_group_gid:
  assumes "uiName u \<noteq> []" and "uiGroups u = g0 # gs"
  shows "(giGID g0 = None \<longrightarrow> (\<exists>err. UpdateUser u w = Returns (Some err, w)))
       \<and> (giGID g0 = Some gid0 \<and> list_all (\<lambda>g. giName g \<noteq> []) (uiGroups u) \<and> cacheOpen w
            \<and> fails w CacheUpdateUserEntry = None \<and> fails w LocalGroupsUpdate = None
            \<and> dbFile w = Database c \<and> userByID c = Some ui \<and> userByName c = Some un
            \<and> groupByID c = Some gi \<and> groupByName c = Some gn
          \<longrightarrow> UpdateUser u w =
                Returns (None,
                  w\<lparr>dbFile := Database
                      \<lparr>userByID = Some (putEntry (KeyInt (uiUID u))
                          (NewUserDB (uiName u) (uiUID u) gid0 (uiGecos u) (uiDir u) (uiShell u)
                             (clock w)) ui),
                       userByName = Some (putEntry (KeyString (uiName u))
                          (NewUserDB (uiName u) (uiUID u) gid0 (uiGecos u) (uiDir u) (uiShell u)
                             (clock w)) un),
                       groupByID = Some (fst (putGroups (persistedGroups u) (gi, gn))),
                       groupByName = Some (snd (putGroups (persistedGroups u) (gi, gn)))\<rparr>,
                    localMembers :=
                      filter (\<lambda>(n, g). n \<noteq> uiName u) (localMembers w)
                        @ map (Pair (uiName u)) (localOnlyGroups u)\<rparr>))
       \<and> set (localOnlyGroups u) = {giName g | g. g \<in> set (uiGroups u) \<and> giGID g = None}
       \<and> set (persistedGroups u) =
           {NewGroupDB (giName g) gid [] | g gid. g \<in> set (uiGroups u) \<and> giGID g = Some gid}"
proof (intro conjI impI)
  assume "giGID g0 = None"
  with assms show "\<exists>err. UpdateUser u w = Returns (Some err, w)"
    by (simp add: UpdateUser_def Let_def)
next
  assume a: "giGID g0 = Some gid0 \<and> list_all (\<lambda>g. giName g \<noteq> []) (uiGroups u) \<and> cacheOpen w
            \<and> fails w CacheUpdateUserEntry = None \<and> fails w LocalGroupsUpdate = None
            \<and> dbFile w = Database c \<and> userByID c = Some ui \<and> userByName c = Some un
            \<and> groupByID c = Some gi \<and> groupByName c = Some gn"
  then have "groupLoop (uiName u) (uiGroups u) [] [] = Inr (persistedGroups u, localOnlyGroups u)"
    by (simp add: groupLoop_user)
  with assms have loop:
    "groupLoop (uiName u) (g0 # gs) [] [] = Inr (persistedGroups u, localOnlyGroups u)"
    by simp
  from a assms show "UpdateUser u w =
                Returns (None,
                  w\<lparr>dbFile := Database
                      \<lparr>userByID = Some (putEntry (KeyInt (uiUID u))
                          (NewUserDB (uiName u) (uiUID u) gid0 (uiGecos u) (uiDir u) (uiShell u)
                             (clock w)) ui),
                       userByName = Some (putEntry (KeyString (uiName u))
                          (NewUserDB (uiName u) (uiUID u) gid0 (uiGecos u) (uiDir u) (uiShell u)
                             (clock w)) un),
                       groupByID = Some (fst (putGroups (persistedGroups u) (gi, gn))),
                       groupByName = Some (snd (putGroups (persistedGroups u) (gi, gn)))\<rparr>,
                    localMembers :=
                      filter (\<lambda>(n, g). n \<noteq> uiName u) (localMembers w)
                        @ map (Pair (uiName u)) (localOnlyGroups u)\<rparr>)"
    unfolding UpdateUser_def Let_def
    by (simp add: loop cache_UpdateUserEntry_def localgroups_Update_def NewUserDB_def
        del: groupLoop.simps split: prod.splits)
next
  show "set (localOnlyGroups u) = {giName g | g. g \<in> set (uiGroups u) \<and> giGID g = None}"
    by (auto simp: localOnlyGroups_def)
next
  show "set (persistedGroups u) =
           {NewGroupDB (giName g) gid [] | g gid. g \<in> set (uiGroups u) \<and> giGID g = Some gid}"
    by (simp add: persistedGroups_def set_groupsWithGID)
qed


theorem UpdateUser_default_group_gid_witness:
  "uiName noGidUser \<noteq> [] \<and> uiGroups noGidUser = [\<lparr>giName = ''staff'', giGID = None\<rparr>]
   \<and> giGID \<lparr>giName = ''staff'', giGID = None\<rparr> = None
   \<and> (\<exists>err. UpdateUser noGidUser clearedWorld = Returns (Some err, clearedWorld))
   \<and> uiName alice \<noteq> []
   \<and> uiGroups alice = [\<lparr>giName = ''staff'', giGID = Some 80001\<rparr>, \<lparr>giName = ''sudo'', giGID = None\<rparr>]
   \<and> giGID \<lparr>giName = ''staff'', giGID = Some 80001\<rparr> = Some 80001
   \<and> list_all (\<lambda>g. giName g \<noteq> []) (uiGroups alice) \<and> cacheOpen clearedWorld
   \<and> fails clearedWorld CacheUpdateUserEntry = None \<and> fails clearedWorld LocalGroupsUpdate = None
   \<and> dbFile clearedWorld = Database emptyCache
   \<and> userByID emptyCache = Some [] \<and> userByName emptyCache = Some []
   \<and> groupByID emptyCache = Some [] \<and> groupByName emptyCache = Some []
   \<and> UpdateUser alice clearedWorld = Returns (None, aliceWorld)
   \<and> localOnlyGroups alice = [''sudo''] \<and> persistedGroups alice = [staffDB]"
proof -
  have n1: "uiName noGidUser \<noteq> []"
    and n2: "uiGroups noGidUser = [\<lparr>giName = ''staff'', giGID = None\<rparr>]"
    by (simp_all add: noGidUser_def alice_def)
  have a1: "uiName alice \<noteq> []"
    and a2: "uiGroups alice =
      [\<lparr>giName = ''staff'', giGID = Some 80001\<rparr>, \<lparr>giName = ''sudo'', giGID = None\<rparr>]"
    by (simp_all add: alice_def)
  have env: "list_all (\<lambda>g. giName g \<noteq> []) (uiGroups alice) \<and> cacheOpen clearedWorld
   \<and> fails clearedWorld CacheUpdateUserEntry = None \<and> fails clearedWorld LocalGroupsUpdate = None
   \<and> dbFile clearedWorld = Database emptyCache
   \<and> userByID emptyCache = Some [] \<and> userByName emptyCache = Some []
   \<and> groupByID emptyCache = Some [] \<and> groupByName emptyCache = Some []"
    by (simp add: alice_def clearedWorld_def emptyCache_def noFault_def)
  have l: "localOnlyGroups alice = [''sudo'']" "persistedGroups alice = [staffDB]"
    by (simp_all add: localOnlyGroups_def persistedGroups_def alice_def staffDB_def)
  from UpdateUser_default_group_gid [OF n1 n2, of clearedWorld]
  have r1: "\<exists>err. UpdateUser noGidUser clearedWorld = Returns (Some err, clearedWorld)"
    by simp
  have f: "uiName alice = ''alice''" "uiUID alice = 70001" "uiGecos alice = ''Alice''"
    "uiDir alice = ''/home/alice''" "uiShell alice = ''/bin/sh''"
    by (simp_all add: alice_def)
  from UpdateUser_default_group_gid [OF a1 a2, of clearedWorld 80001 emptyCache "[]" "[]" "[]" "[]"] env
  have r2: "UpdateUser alice clearedWorld = Returns (None, aliceWorld)"
    by (simp add: l f aliceWorld_def aliceCache_def aliceDB_def clearedWorld_def
        putEntry_def staffDB_def NewGroupDB_def)
  from n1 n2 a1 a2 env l r1 r2 show ?thesis
    by simp
qed

lemma cache_UpdateUserEntry_fails:
  "cache_UpdateUserEntry usr groups w = (r, w1) \<Longrightarrow> fails w1 = fails w"
  by (auto simp: cache_UpdateUserEntry_def split: option.splits dbFile.splits prod.splits)

lemma UpdateUser_after_validation:
  assumes "uiName u \<noteq> []" and "uiGroups u = g0 # gs" and "giGID g0 = Some gid0"
    and "list_all (\<lambda>g. giName g \<noteq> []) (uiGroups u)" and "cacheOpen w"
  shows "UpdateUser u w =
     (case cache_UpdateUserEntry
             (NewUserDB (uiName u) (uiUID u) gid0 (uiGecos u) (uiDir u) (uiShell u) (clock w))
             (persistedGroups u) w of
        (Some err, w1) \<Rightarrow>
          Returns (Some (OnError ''failed to update user %q'' [ArgString (uiName u)] err),
                   shouldClearDb (Some err) w1)
      | (None, w1) \<Rightarrow>
          (case localgroups_Update (uiName u) (localOnlyGroups u) w1 of
             (Some err, w2) \<Rightarrow>
               (case cache_DeleteUser (uiUID u) w2 of
                  (delErr, w3) \<Rightarrow>
                    Returns (map_option (OnError ''failed to update user %q'' [ArgString (uiName u)])
                               (errorsJoin [Some err, delErr]),
                             shouldClearDb delErr w3))
           | (None, w2) \<Rightarrow> Returns (None, w2)))"
proof -
  from assms(4) have "groupLoop (uiName u) (uiGroups u) [] [] = Inr (persistedGroups u, localOnlyGroups u)"
    by (simp add: groupLoop_user)
  with assms(2) have loop:
    "groupLoop (uiName u) (g0 # gs) [] [] = Inr (persistedGroups u, localOnlyGroups u)"
    by simp
  from assms show ?thesis
    unfolding UpdateUser_def Let_def
    by (simp add: loop del: groupLoop.simps)
qed

text \<open>
  C10: when the user passes the checks, \<open>UpdateUserEntry\<close> has written the entry and
  \<open>localgroups.Update\<close> then fails with \<open>e\<close>, \<open>UpdateUser\<close> returns an error that
  wraps \<open>e\<close> and the world it leaves is the one after \<open>DeleteUser\<close> of the user's UID
  on the written cache. Unless that deletion fails too, looking the user up by ID or by
  name afterwards finds no entry.
\<close>

theorem UpdateUser_local_groups_failure:
  assumes "uiName u \<noteq> []" and "uiGroups u = g0 # gs" and "giGID g0 = Some gid0"
    and "list_all (\<lambda>g. giName g \<noteq> []) (uiGroups u)" and "cacheOpen w"
    and "cache_UpdateUserEntry
           (NewUserDB (uiName u) (uiUID u) gid0 (uiGecos u) (uiDir u) (uiShell u) (clock w))
           (persistedGroups u) w = (None, w1)"
    and "fails w LocalGroupsUpdate = Some e"
  shows "\<exists>err w'.
           UpdateUser u w = Returns (Some err, w') \<and> errorsIs err e
           \<and> w' = shouldClearDb (fst (cache_DeleteUser (uiUID u) w1))
                    (snd (cache_DeleteUser (uiUID u) w1))
           \<and> (fails w CacheDeleteUser = None \<longrightarrow>
                (\<exists>k b. Manager_UserByID (uiUID u) w'
                          = Returns ((zeroUserEntry, Some (NoDataFoundError k b)), w'))
              \<and> (\<exists>k b. Manager_UserByName (uiName u) w'
                          = Returns ((zeroUserEntry, Some (NoDataFoundError k b)), w')))"
proof -
  let ?usr = "NewUserDB (uiName u) (uiUID u) gid0 (uiGecos u) (uiDir u) (uiShell u) (clock w)"
  from cache_UpdateUserEntry_fails [OF assms(6)] assms(7)
  have lf: "localgroups_Update (uiName u) (localOnlyGroups u) w1 = (Some e, w1)"
    by (simp add: localgroups_Update_def)
  obtain delErr w3 where del: "cache_DeleteUser (uiUID u) w1 = (delErr, w3)"
    by (cases "cache_DeleteUser (uiUID u) w1") auto
  have upd: "UpdateUser u w =
      Returns (Some (OnError ''failed to update user %q'' [ArgString (uiName u)]
                 (Join (e # List.map_filter id [delErr]))),
               shouldClearDb delErr w3)"
    by (simp add: UpdateUser_after_validation [OF assms(1-5)] assms(6) lf del errorsJoin_Some)
  have isE: "errorsIs (OnError ''failed to update user %q'' [ArgString (uiName u)]
                 (Join (e # List.map_filter id [delErr]))) e"
    by (simp add: errorsIs_refl)
  have vis: "(\<exists>k b. Manager_UserByID (uiUID u) (shouldClearDb delErr w3)
                          = Returns ((zeroUserEntry, Some (NoDataFoundError k b)),
                                     shouldClearDb delErr w3))
              \<and> (\<exists>k b. Manager_UserByName (uiName u) (shouldClearDb delErr w3)
                          = Returns ((zeroUserEntry, Some (NoDataFoundError k b)),
                                     shouldClearDb delErr w3))"
    if nofault: "fails w CacheDeleteUser = None"
  proof -
    from cache_UpdateUserEntry_written [OF assms(6)] obtain c ui un gi gn where
      w1: "w1 = w\<lparr>dbFile := Database
                    \<lparr>userByID = Some (putEntry (KeyInt (UID ?usr)) ?usr ui),
                     userByName = Some (putEntry (KeyString (Name ?usr)) ?usr un),
                     groupByID = Some (fst (putGroups (persistedGroups u) (gi, gn))),
                     groupByName = Some (snd (putGroups (persistedGroups u) (gi, gn)))\<rparr>\<rparr>"
      by blast
    have uid: "UID ?usr = uiUID u" and name: "Name ?usr = uiName u"
      by (simp_all add: NewUserDB_def)
    from del nofault have d: "delErr = None"
      and w3: "w3 = w1\<lparr>dbFile := Database
                    \<lparr>userByID = Some (deleteEntry (KeyInt (uiUID u))
                                        (putEntry (KeyInt (uiUID u)) ?usr ui)),
                     userByName = Some (deleteEntry (KeyString (uiName u))
                                        (putEntry (KeyString (uiName u)) ?usr un)),
                     groupByID = Some (fst (putGroups (persistedGroups u) (gi, gn))),
                     groupByName = Some (snd (putGroups (persistedGroups u) (gi, gn)))\<rparr>\<rparr>"
      unfolding w1 uid name
      by (auto simp: cache_DeleteUser_def map_of_putEntry name)
    from assms(5) have opened: "cacheOpen w3"
      by (simp add: w3 w1)
    show ?thesis
      unfolding d
      by (simp add: shouldClearDb_def Manager_UserByID_def Manager_UserByName_def opened
          Cache_UserByID_def Cache_UserByName_def getUser_def getBucket_def getFromBucket_def
          openCache_def w3 w1 assms(5) map_of_deleteEntry userByIDBucketName_def
          userByNameBucketName_def toUserPasswdShadow_def)
  qed
  from upd isE vis show ?thesis
    by (simp add: del)
qed


lemma getUser_found:
  "getBucket c bucketName = Inr (n, b) \<Longrightarrow> map_of b k = Some (Encoded u) \<Longrightarrow>
   getUser c bucketName k = (u, None)"
  by (simp add: getUser_def getFromBucket_def)

lemma getUser_missing:
  "getBucket c bucketName = Inr (n, b) \<Longrightarrow> map_of b k = None \<Longrightarrow>
   getUser c bucketName k = (zeroUserDB, Some (NoDataFoundError k n))"
  by (simp add: getUser_def getFromBucket_def)

lemma getUser_garbled:
  "getBucket c bucketName = Inr (n, b) \<Longrightarrow> map_of b k = Some (Garbled raw) \<Longrightarrow>
   \<exists>err. getUser c bucketName k = (zeroUserDB, Some (Join [ErrNeedsClearing, err]))"
  by (simp add: getUser_def getFromBucket_def)

lemma getUser_no_bucket:
  "getBucket c bucketName = Inl err \<Longrightarrow>
   getUser c bucketName k = (zeroUserDB, Some (Join [ErrNeedsClearing, err]))"
  by (simp add: getUser_def)

lemma getBucket_byID:
  "getBucket c userByIDBucketName =
     (case userByID c of
        None \<Rightarrow> Inl (Errorf ''bucket %v not found'' [ArgString userByIDBucketName] [])
      | Some b \<Rightarrow> Inr (userByIDBucketName, b))"
  by (simp add: getBucket_def)

lemma getBucket_byName:
  "getBucket c userByNameBucketName =
     (case userByName c of
        None \<Rightarrow> Inl (Errorf ''bucket %v not found'' [ArgString userByNameBucketName] [])
      | Some b \<Rightarrow> Inr (userByNameBucketName, b))"
proof -
  have "userByNameBucketName \<noteq> userByIDBucketName"
    by (simp add: userByIDBucketName_def userByNameBucketName_def)
  then show ?thesis
    by (simp add: getBucket_def)
qed

lemma shouldClearDb_clearing:
  "shouldClearDb (Some (Join [ErrNeedsClearing, err])) w = requestClearDatabase w"
  by (simp add: shouldClearDb_def)

lemma shouldClearDb_not_found:
  "shouldClearDb (Some (NoDataFoundError k n)) w = w"
  by (simp add: shouldClearDb_def)

lemma Manager_UserByID_outcomes:
  assumes "cacheOpen w"
  shows "(userByID (openCache w) = Some b \<and> map_of b (KeyInt uid) = Some (Encoded u) \<longrightarrow>
            Manager_UserByID uid w
              = Returns ((userEntryFromUserDB (toUserPasswdShadow u), None), w))
       \<and> (userByID (openCache w) = Some b \<and> map_of b (KeyInt uid) = None \<longrightarrow>
            Manager_UserByID uid w
              = Returns ((zeroUserEntry, Some (NoDataFoundError (KeyInt uid) userByIDBucketName)), w))
       \<and> (userByID (openCache w) = None
            \<or> (userByID (openCache w) = Some b \<and> map_of b (KeyInt uid) = Some (Garbled raw)) \<longrightarrow>
            (\<exists>err. Manager_UserByID uid w
                      = Returns ((zeroUserEntry, Some (Join [ErrNeedsClearing, err])),
                                 requestClearDatabase w)))"
proof (intro conjI impI)
  assume "userByID (openCache w) = Some b \<and> map_of b (KeyInt uid) = Some (Encoded u)"
  then have "getUser (openCache w) userByIDBucketName (KeyInt uid) = (u, None)"
    by (intro getUser_found [of _ _ userByIDBucketName b]) (simp_all add: getBucket_byID)
  with assms show "Manager_UserByID uid w
              = Returns ((userEntryFromUserDB (toUserPasswdShadow u), None), w)"
    by (simp add: Manager_UserByID_def Cache_UserByID_def)
next
  assume "userByID (openCache w) = Some b \<and> map_of b (KeyInt uid) = None"
  then have "getUser (openCache w) userByIDBucketName (KeyInt uid)
               = (zeroUserDB, Some (NoDataFoundError (KeyInt uid) userByIDBucketName))"
    by (intro getUser_missing [of _ _ userByIDBucketName b]) (simp_all add: getBucket_byID)
  with assms show "Manager_UserByID uid w
              = Returns ((zeroUserEntry, Some (NoDataFoundError (KeyInt uid) userByIDBucketName)), w)"
    by (simp add: Manager_UserByID_def Cache_UserByID_def shouldClearDb_not_found)
next
  assume "userByID (openCache w) = None
            \<or> (userByID (openCache w) = Some b \<and> map_of b (KeyInt uid) = Some (Garbled raw))"
  then have "\<exists>err. getUser (openCache w) userByIDBucketName (KeyInt uid)
               = (zeroUserDB, Some (Join [ErrNeedsClearing, err]))"
  proof
    assume "userByID (openCache w) = None"
    then show ?thesis
      by (simp add: getUser_no_bucket getBucket_byID)
  next
    assume "userByID (openCache w) = Some b \<and> map_of b (KeyInt uid) = Some (Garbled raw)"
    then show ?thesis
      by (intro getUser_garbled [of _ _ userByIDBucketName b _ raw]) (simp_all add: getBucket_byID)
  qed
  then obtain err where "getUser (openCache w) userByIDBucketName (KeyInt uid)
               = (zeroUserDB, Some (Join [ErrNeedsClearing, err]))"
    by blast
  with assms show "\<exists>err. Manager_UserByID uid w
                      = Returns ((zeroUserEntry, Some (Join [ErrNeedsClearing, err])),
                                 requestClearDatabase w)"
    by (simp add: Manager_UserByID_def Cache_UserByID_def shouldClearDb_clearing)
qed

lemma Manager_UserByName_outcomes:
  assumes "cacheOpen w"
  shows "(userByName (openCache w) = Some b \<and> map_of b (KeyString name) = Some (Encoded u) \<longrightarrow>
            Manager_UserByName name w
              = Returns ((userEntryFromUserDB (toUserPasswdShadow u), None), w))
       \<and> (userByName (openCache w) = Some b \<and> map_of b (KeyString name) = None \<longrightarrow>
            Manager_UserByName name w
              = Returns ((zeroUserEntry, Some (NoDataFoundError (KeyString name) userByNameBucketName)), w))
       \<and> (userByName (openCache w) = None
            \<or> (userByName (openCache w) = Some b
                \<and> map_of b (KeyString name) = Some (Garbled raw)) \<longrightarrow>
            (\<exists>err. Manager_UserByName name w
                      = Returns ((zeroUserEntry, Some (Join [ErrNeedsClearing, err])),
                                 requestClearDatabase w)))"
proof (intro conjI impI)
  assume "userByName (openCache w) = Some b \<and> map_of b (KeyString name) = Some (Encoded u)"
  then have "getUser (openCache w) userByNameBucketName (KeyString name) = (u, None)"
    by (intro getUser_found [of _ _ userByNameBucketName b]) (simp_all add: getBucket_byName)
  with assms show "Manager_UserByName name w
              = Returns ((userEntryFromUserDB (toUserPasswdShadow u), None), w)"
    by (simp add: Manager_UserByName_def Cache_UserByName_def)
next
  assume "userByName (openCache w) = Some b \<and> map_of b (KeyString name) = None"
  then have "getUser (openCache w) userByNameBucketName (KeyString name)
               = (zeroUserDB, Some (NoDataFoundError (KeyString name) userByNameBucketName))"
    by (intro getUser_missing [of _ _ userByNameBucketName b]) (simp_all add: getBucket_byName)
  with assms show "Manager_UserByName name w
              = Returns ((zeroUserEntry, Some (NoDataFoundError (KeyString name) userByNameBucketName)), w)"
    by (simp add: Manager_UserByName_def Cache_UserByName_def shouldClearDb_not_found)
next
  assume "userByName (openCache w) = None
            \<or> (userByName (openCache w) = Some b
                \<and> map_of b (KeyString name) = Some (Garbled raw))"
  then have "\<exists>err. getUser (openCache w) userByNameBucketName (KeyString name)
               = (zeroUserDB, Some (Join [ErrNeedsClearing, err]))"
  proof
    assume "userByName (openCache w) = None"
    then show ?thesis
      by (simp add: getUser_no_bucket getBucket_byName)
  next
    assume "userByName (openCache w) = Some b \<and> map_of b (KeyString name) = Some (Garbled raw)"
    then show ?thesis
      by (intro getUser_garbled [of _ _ userByNameBucketName b _ raw])
        (simp_all add: getBucket_byName)
  qed
  then obtain err where "getUser (openCache w) userByNameBucketName (KeyString name)
               = (zeroUserDB, Some (Join [ErrNeedsClearing, err]))"
    by blast
  with assms show "\<exists>err. Manager_UserByName name w
                      = Returns ((zeroUserEntry, Some (Join [ErrNeedsClearing, err])),
                                 requestClearDatabase w)"
    by (simp add: Manager_UserByName_def Cache_UserByName_def shouldClearDb_clearing)
qed


lemma cache_New_frame:
  "cache_New w = (r, w1) \<Longrightarrow> dirtyFlag w1 = dirtyFlag w \<and> fails w1 = fails w"
  by (auto simp: cache_New_def split: option.splits dbFile.splits)

lemma cache_RemoveDb_frame:
  "cache_RemoveDb w = (r, w1) \<Longrightarrow> dirtyFlag w1 = dirtyFlag w \<and> fails w1 = fails w"
  by (auto simp: cache_RemoveDb_def split: option.splits)

lemma localgroups_Clean_frame:
  "localgroups_Clean w = (r, w1) \<Longrightarrow> dirtyFlag w1 = dirtyFlag w \<and> fails w1 = fails w"
  by (auto simp: localgroups_Clean_def split: option.splits)

lemma openLoop_frame:
  "openLoop n w = Inr w1 \<Longrightarrow> dirtyFlag w1 = dirtyFlag w \<and> fails w1 = fails w"
proof (induction n arbitrary: w)
  case 0
  then show ?case by simp
next
  case (Suc n)
  obtain r wa where new: "cache_New w = (r, wa)"
    by (cases "cache_New w") auto
  note fa = cache_New_frame [OF new]
  show ?case
  proof (cases r)
    case None
    with Suc.prems new fa show ?thesis
      by auto
  next
    case (Some err)
    obtain r2 wb where rm: "cache_RemoveDb wa = (r2, wb)"
      by (cases "cache_RemoveDb wa") auto
    obtain r3 wc where cl: "localgroups_Clean wb = (r3, wc)"
      by (cases "localgroups_Clean wb") auto
    from Suc.prems new Some rm cl have "openLoop n wc = Inr w1"
      by (auto split: if_splits option.splits)
    from Suc.IH [OF this] cache_RemoveDb_frame [OF rm] localgroups_Clean_frame [OF cl] fa
    show ?thesis
      by simp
  qed
qed

lemma storedUserNames_empty: "dbFile w = Database emptyCache \<Longrightarrow> storedUserNames w = []"
  by (simp add: storedUserNames_def emptyCache_def List.map_filter_simps)

lemma Manager_clear_done:
  assumes "Manager_clear w = Returns (None, w')" and "dirtyFlag w"
  shows "dbFile w' = Database emptyCache \<and> localMembers w' = [] \<and> cacheOpen w'
         \<and> dirtyFlag w' = (fails w OsRemove \<noteq> None)"
proof -
  from assms(1) have opened: "cacheOpen w"
    by (auto simp: Manager_clear_def split: if_splits)
  from assms(1) opened have cl: "cache_Clear w = (None, w\<lparr>dbFile := Database emptyCache\<rparr>)"
    by (auto simp: Manager_clear_def cache_Clear_def split: option.splits prod.splits)
  let ?w1 = "w\<lparr>dbFile := Database emptyCache\<rparr>"
  obtain rmErr w2 where rm: "os_Remove ?w1 = (rmErr, w2)"
    by (cases "os_Remove ?w1") auto
  with assms(2) opened have w2: "dbFile w2 = Database emptyCache" "cacheOpen w2"
    "dirtyFlag w2 = (fails w OsRemove \<noteq> None)"
    by (cases "fails w OsRemove"; simp add: os_Remove_def; auto)+
  from assms(1) opened cl rm have "localgroups_Clean w2 = (None, w')"
    by (auto simp: Manager_clear_def split: option.splits prod.splits)
  with w2(1) have "w' = w2\<lparr>localMembers := []\<rparr>"
    by (auto simp: localgroups_Clean_def storedUserNames_empty split: option.splits)
  with w2 show ?thesis
    by simp
qed

lemma cleanUsersLoop_nil: "cleanUsersLoop [] err w = (err, w)"
  by simp

lemma cleanExpiredUserData_empty:
  assumes "cleanExpiredUserData opts w = Returns (r, w')" and "dbFile w = Database emptyCache"
  shows "w' = w"
proof (cases "getUIDsOfRunningProcesses w")
  case (Inl err)
  with assms(1) show ?thesis
    by (simp add: cleanExpiredUserData_def)
next
  case (Inr activeUIDs)
  have same: "w\<lparr>dbFile := Database (emptyCache\<lparr>userByID := Some [], userByName := Some []\<rparr>)\<rparr> = w"
    using assms(2) by (simp add: emptyCache_def)
  have "snd (cache_CleanExpiredUsers (map int activeUIDs) (expirationDate opts) w) = w"
    using assms(2) same
    by (simp add: cache_CleanExpiredUsers_def emptyCache_def split: option.splits)
  moreover have "\<And>names. fst (cache_CleanExpiredUsers (map int activeUIDs) (expirationDate opts) w)
                = Inr names \<Longrightarrow> names = []"
    using assms(2)
    by (auto simp: cache_CleanExpiredUsers_def emptyCache_def split: option.splits)
  ultimately show ?thesis
    using assms(1) Inr
    by (auto simp: cleanExpiredUserData_def split: if_splits prod.splits sum.splits)
qed

lemma Manager_AllUsers_empty:
  "dbFile w = Database emptyCache \<Longrightarrow> cacheOpen w \<Longrightarrow>
   Manager_AllUsers w = Returns (([], None), w)"
  by (simp add: Manager_AllUsers_def Cache_AllUsers_def openCache_def getBucket_def
      emptyCache_def)

text \<open>
  C3 (as stated) fails: when the removal of the marker file fails, \<open>clear\<close> only logs the
  error; \<open>NewManager\<close> returns a manager on the emptied database and the marker file is
  still there.
\<close>

theorem NewManager_marker_stays_counterexample:
  "dirtyFlag stuckMarkerWorld
   \<and> NewManager [] stuckMarkerWorld = Returns (Inr stuckClearedWorld)
   \<and> dbFile stuckClearedWorld = Database emptyCache
   \<and> dirtyFlag stuckClearedWorld"
proof -
  have atoi: "Atoi ''1'' = Some 1" "Atoi ''self'' = None"
    by (simp_all add: Atoi_def digitValue_def)
  show ?thesis
    by (simp add: NewManager_def Let_def numeral_2_eq_2 cache_New_def stuckMarkerWorld_def
        markedWorld_def removeFails_def isMarkedCorrupted_def Manager_clear_def cache_Clear_def
        os_Remove_def localgroups_Clean_def storedUserNames_def emptyCache_def
        List.map_filter_simps cleanExpiredUserData_def getUIDsOfRunningProcesses_def atoi
        cache_CleanExpiredUsers_def stuckClearedWorld_def clearedWorld_def)
qed

text \<open>
  C3 (as the code has it): when the marker file \<open>.corrupted\<close> exists as \<open>NewManager\<close> is
  called and \<open>NewManager\<close> returns a manager, then the database is the empty one, no
  managed membership in a local group is left, and \<open>AllUsers\<close> returns the empty list
  without error. The marker file is gone if its removal succeeded; if the removal failed
  it is still there.
\<close>

theorem NewManager_clears_marked_database:
  assumes "dirtyFlag w" and "NewManager args w = Returns (Inr w')"
  shows "dbFile w' = Database emptyCache \<and> localMembers w' = []
         \<and> Manager_AllUsers w' = Returns (([], None), w')
         \<and> dirtyFlag w' = (fails w OsRemove \<noteq> None)"
proof -
  from assms(2) obtain w1 where loop: "openLoop 2 (w\<lparr>cacheOpen := False\<rparr>) = Inr w1"
    by (auto simp: NewManager_def Let_def split: sum.splits)
  from openLoop_frame [OF loop] assms(1)
  have marked: "dirtyFlag w1" and same: "fails w1 = fails w"
    by simp_all
  from assms(2) loop marked obtain w2 where
    cleared: "Manager_clear w1 = Returns (None, w2)"
    by (auto simp: NewManager_def Let_def isMarkedCorrupted_def
        split: outcome.splits option.splits prod.splits)
  note c = Manager_clear_done [OF cleared marked]
  have "w' = w2"
  proof -
    from assms(2) loop marked cleared
    have "w' = w2 \<or> (\<exists>opts r. cleanExpiredUserData opts w2 = Returns (r, w'))"
      by (auto simp: NewManager_def Let_def isMarkedCorrupted_def
          split: outcome.splits if_splits prod.splits)
    with c show ?thesis
      by (auto dest: cleanExpiredUserData_empty)
  qed
  with c same show ?thesis
    by (simp add: Manager_AllUsers_empty)
qed

theorem NewManager_clears_marked_database_witness:
  "dirtyFlag markedWorld
   \<and> NewManager [] markedWorld = Returns (Inr clearedWorld)
   \<and> dbFile clearedWorld = Database emptyCache
   \<and> localMembers clearedWorld = []
   \<and> Manager_AllUsers clearedWorld = Returns (([], None), clearedWorld)
   \<and> fails markedWorld OsRemove = None \<and> \<not> dirtyFlag clearedWorld"
proof -
  have h1: "dirtyFlag markedWorld" and h2: "fails markedWorld OsRemove = None"
    by (simp_all add: markedWorld_def noFault_def)
  have atoi: "Atoi ''1'' = Some 1" "Atoi ''self'' = None"
    by (simp_all add: Atoi_def digitValue_def)
  have h3: "NewManager [] markedWorld = Returns (Inr clearedWorld)"
    by (simp add: NewManager_def Let_def numeral_2_eq_2 cache_New_def markedWorld_def
        noFault_def isMarkedCorrupted_def Manager_clear_def cache_Clear_def os_Remove_def
        localgroups_Clean_def storedUserNames_def emptyCache_def List.map_filter_simps
        cleanExpiredUserData_def getUIDsOfRunningProcesses_def atoi
        cache_CleanExpiredUsers_def clearedWorld_def)
  from NewManager_clears_marked_database [OF h1 h3] h1 h2 h3 show ?thesis
    by simp
qed


text \<open>
  C4: \<open>UserByID\<close> and \<open>UserByName\<close> on an open cache. When the bucket has an entry that
  decodes, the stored record is returned without error. When the bucket has no entry for
  the key, the error is \<open>NoDataFoundError\<close> alone: it is not \<open>ErrNeedsClearing\<close>, and
  nothing is marked or requested. When the bucket is missing or the entry does not
  decode, the error is \<open>ErrNeedsClearing\<close> joined with the cause, and the manager marks
  the database and requests a clearing.
\<close>

theorem user_lookup_outcomes:
  assumes "cacheOpen w"
  shows "(userByID (openCache w) = Some b \<and> map_of b (KeyInt uid) = Some (Encoded u) \<longrightarrow>
            Manager_UserByID uid w
              = Returns ((userEntryFromUserDB (toUserPasswdShadow u), None), w))
       \<and> (userByID (openCache w) = Some b \<and> map_of b (KeyInt uid) = None \<longrightarrow>
            Manager_UserByID uid w
              = Returns ((zeroUserEntry, Some (NoDataFoundError (KeyInt uid) userByIDBucketName)), w))
       \<and> (userByID (openCache w) = None
            \<or> (userByID (openCache w) = Some b \<and> map_of b (KeyInt uid) = Some (Garbled raw)) \<longrightarrow>
            (\<exists>err. Manager_UserByID uid w
                      = Returns ((zeroUserEntry, Some (Join [ErrNeedsClearing, err])),
                                 requestClearDatabase w)))
       \<and> (userByName (openCache w) = Some b' \<and> map_of b' (KeyString name) = Some (Encoded u') \<longrightarrow>
            Manager_UserByName name w
              = Returns ((userEntryFromUserDB (toUserPasswdShadow u'), None), w))
       \<and> (userByName (openCache w) = Some b' \<and> map_of b' (KeyString name) = None \<longrightarrow>
            Manager_UserByName name w
              = Returns ((zeroUserEntry, Some (NoDataFoundError (KeyString name) userByNameBucketName)), w))
       \<and> (userByName (openCache w) = None
            \<or> (userByName (openCache w) = Some b'
                \<and> map_of b' (KeyString name) = Some (Garbled raw')) \<longrightarrow>
            (\<exists>err. Manager_UserByName name w
                      = Returns ((zeroUserEntry, Some (Join [ErrNeedsClearing, err])),
                                 requestClearDatabase w)))
       \<and> \<not> errorsIs (NoDataFoundError k n) ErrNeedsClearing
       \<and> errorsIs (Join [ErrNeedsClearing, e]) ErrNeedsClearing"
  using Manager_UserByID_outcomes [OF assms, of b uid u raw]
    Manager_UserByName_outcomes [OF assms, of b' name u' raw']
  by simp

theorem user_lookup_outcomes_witness:
  "cacheOpen aliceWorld
   \<and> userByID (openCache aliceWorld) = Some [(KeyInt 70001, Encoded aliceDB)]
   \<and> map_of [(KeyInt 70001, Encoded aliceDB)] (KeyInt 70001) = Some (Encoded aliceDB)
   \<and> Manager_UserByID 70001 aliceWorld = Returns ((aliceEntry, None), aliceWorld)
   \<and> userByName (openCache aliceWorld) = Some [(KeyString ''alice'', Encoded aliceDB)]
   \<and> map_of [(KeyString ''alice'', Encoded aliceDB)] (KeyString ''alice'') = Some (Encoded aliceDB)
   \<and> Manager_UserByName ''alice'' aliceWorld = Returns ((aliceEntry, None), aliceWorld)
   \<and> map_of [(KeyInt 70001, Encoded aliceDB)] (KeyInt 5) = None
   \<and> Manager_UserByID 5 aliceWorld
       = Returns ((zeroUserEntry, Some (NoDataFoundError (KeyInt 5) userByIDBucketName)),
                  aliceWorld)
   \<and> map_of [(KeyString ''alice'', Encoded aliceDB)] (KeyString ''bob'') = None
   \<and> Manager_UserByName ''bob'' aliceWorld
       = Returns ((zeroUserEntry, Some (NoDataFoundError (KeyString ''bob'') userByNameBucketName)),
                  aliceWorld)
   \<and> cacheOpen garbledWorld
   \<and> userByID (openCache garbledWorld) = Some [(KeyInt 70000, Garbled ''invalid character'')]
   \<and> map_of [(KeyInt 70000, Garbled ''invalid character'')] (KeyInt 70000)
        = Some (Garbled ''invalid character'')
   \<and> (\<exists>err. Manager_UserByID 70000 garbledWorld
               = Returns ((zeroUserEntry, Some (Join [ErrNeedsClearing, err])),
                          requestClearDatabase garbledWorld))
   \<and> dirtyFlag (requestClearDatabase garbledWorld)
   \<and> cacheOpen noBucketWorld \<and> userByName (openCache noBucketWorld) = None
   \<and> (\<exists>err. Manager_UserByName ''alice'' noBucketWorld
               = Returns ((zeroUserEntry, Some (Join [ErrNeedsClearing, err])),
                          requestClearDatabase noBucketWorld))"
proof -
  have a: "cacheOpen aliceWorld"
    and ai: "userByID (openCache aliceWorld) = Some [(KeyInt 70001, Encoded aliceDB)]"
    and an: "userByName (openCache aliceWorld) = Some [(KeyString ''alice'', Encoded aliceDB)]"
    by (simp_all add: aliceWorld_def clearedWorld_def openCache_def aliceCache_def)
  have g: "cacheOpen garbledWorld"
    and gi: "userByID (openCache garbledWorld)
               = Some [(KeyInt 70000, Garbled ''invalid character'')]"
    and gd: "dirtyFlag (requestClearDatabase garbledWorld)"
    by (simp_all add: garbledWorld_def markedWorld_def openCache_def garbledCache_def
        requestClearDatabase_def markCorrupted_def isMarkedCorrupted_def os_WriteFile_def
        noFault_def)
  have n: "cacheOpen noBucketWorld" and nn: "userByName (openCache noBucketWorld) = None"
    by (simp_all add: noBucketWorld_def clearedWorld_def openCache_def)
  have e: "userEntryFromUserDB (toUserPasswdShadow aliceDB) = aliceEntry"
    by (simp add: userEntryFromUserDB_def toUserPasswdShadow_def aliceDB_def NewUserDB_def
        aliceEntry_def UserPasswdShadow.truncate_def UserPasswdShadow.defs)
  from user_lookup_outcomes [OF a, of "[(KeyInt 70001, Encoded aliceDB)]" 70001 aliceDB _
      "[(KeyString ''alice'', Encoded aliceDB)]" "''alice''" aliceDB] ai an e
  have r1: "Manager_UserByID 70001 aliceWorld = Returns ((aliceEntry, None), aliceWorld)"
    and r2: "Manager_UserByName ''alice'' aliceWorld = Returns ((aliceEntry, None), aliceWorld)"
    by simp_all
  from user_lookup_outcomes [OF a, of "[(KeyInt 70001, Encoded aliceDB)]" 5 _ _
      "[(KeyString ''alice'', Encoded aliceDB)]" "''bob''"] ai an
  have r3: "Manager_UserByID 5 aliceWorld
       = Returns ((zeroUserEntry, Some (NoDataFoundError (KeyInt 5) userByIDBucketName)),
                  aliceWorld)"
    and r4: "Manager_UserByName ''bob'' aliceWorld
       = Returns ((zeroUserEntry, Some (NoDataFoundError (KeyString ''bob'') userByNameBucketName)),
                  aliceWorld)"
    by simp_all
  from user_lookup_outcomes [OF g, of "[(KeyInt 70000, Garbled ''invalid character'')]" 70000 _
      "''invalid character''"] gi
  have r5: "\<exists>err. Manager_UserByID 70000 garbledWorld
               = Returns ((zeroUserEntry, Some (Join [ErrNeedsClearing, err])),
                          requestClearDatabase garbledWorld)"
    by simp
  from user_lookup_outcomes [OF n, of _ _ _ _ _ "''alice''"] nn
  have r6: "\<exists>err. Manager_UserByName ''alice'' noBucketWorld
               = Returns ((zeroUserEntry, Some (Join [ErrNeedsClearing, err])),
                          requestClearDatabase noBucketWorld)"
    by simp
  from a ai an g gi gd n nn r1 r2 r3 r4 r5 r6 show ?thesis
    by simp
qed

theorem UpdateUser_local_groups_failure_witness:
  "uiName alice \<noteq> []
   \<and> uiGroups alice = [\<lparr>giName = ''staff'', giGID = Some 80001\<rparr>, \<lparr>giName = ''sudo'', giGID = None\<rparr>]
   \<and> giGID \<lparr>giName = ''staff'', giGID = Some 80001\<rparr> = Some 80001
   \<and> list_all (\<lambda>g. giName g \<noteq> []) (uiGroups alice) \<and> cacheOpen failingWorld
   \<and> cache_UpdateUserEntry
        (NewUserDB (uiName alice) (uiUID alice) 80001 (uiGecos alice) (uiDir alice)
           (uiShell alice) (clock failingWorld))
        (persistedGroups alice) failingWorld = (None, writtenWorld)
   \<and> fails failingWorld LocalGroupsUpdate = Some (ErrorString ''gpasswd failed'')
   \<and> fails failingWorld CacheDeleteUser = None
   \<and> cache_DeleteUser (uiUID alice) writtenWorld = (None, rolledBackWorld)
   \<and> (\<exists>err. UpdateUser alice failingWorld = Returns (Some err, rolledBackWorld)
            \<and> errorsIs err (ErrorString ''gpasswd failed''))
   \<and> (\<exists>k b. Manager_UserByID (uiUID alice) rolledBackWorld
               = Returns ((zeroUserEntry, Some (NoDataFoundError k b)), rolledBackWorld))
   \<and> (\<exists>k b. Manager_UserByName (uiName alice) rolledBackWorld
               = Returns ((zeroUserEntry, Some (NoDataFoundError k b)), rolledBackWorld))"
proof -
  have a1: "uiName alice \<noteq> []"
    and a2: "uiGroups alice =
      [\<lparr>giName = ''staff'', giGID = Some 80001\<rparr>, \<lparr>giName = ''sudo'', giGID = None\<rparr>]"
    and a3: "giGID \<lparr>giName = ''staff'', giGID = Some 80001\<rparr> = Some 80001"
    and a4: "list_all (\<lambda>g. giName g \<noteq> []) (uiGroups alice)"
    by (simp_all add: alice_def)
  have a5: "cacheOpen failingWorld"
    and a7: "fails failingWorld LocalGroupsUpdate = Some (ErrorString ''gpasswd failed'')"
    and a8: "fails failingWorld CacheDeleteUser = None"
    by (simp_all add: failingWorld_def clearedWorld_def localUpdateFails_def)
  have a6: "cache_UpdateUserEntry
        (NewUserDB (uiName alice) (uiUID alice) 80001 (uiGecos alice) (uiDir alice)
           (uiShell alice) (clock failingWorld))
        (persistedGroups alice) failingWorld = (None, writtenWorld)"
    by (simp add: cache_UpdateUserEntry_def persistedGroups_def alice_def failingWorld_def
        clearedWorld_def localUpdateFails_def emptyCache_def putEntry_def writtenWorld_def
        aliceCache_def aliceDB_def staffDB_def NewUserDB_def NewGroupDB_def)
  have d: "cache_DeleteUser (uiUID alice) writtenWorld = (None, rolledBackWorld)"
    by (simp add: cache_DeleteUser_def writtenWorld_def failingWorld_def clearedWorld_def
        localUpdateFails_def aliceCache_def alice_def aliceDB_def NewUserDB_def deleteEntry_def
        rolledBackWorld_def)
  from UpdateUser_local_groups_failure [OF a1 a2 a3 a4 a5 a6 a7] a8
  have r: "(\<exists>err. UpdateUser alice failingWorld = Returns (Some err, rolledBackWorld)
            \<and> errorsIs err (ErrorString ''gpasswd failed''))
   \<and> (\<exists>k b. Manager_UserByID (uiUID alice) rolledBackWorld
               = Returns ((zeroUserEntry, Some (NoDataFoundError k b)), rolledBackWorld))
   \<and> (\<exists>k b. Manager_UserByName (uiName alice) rolledBackWorld
               = Returns ((zeroUserEntry, Some (NoDataFoundError k b)), rolledBackWorld))"
    by (auto simp: d shouldClearDb_def)
  from a1 a2 a3 a4 a5 a6 a7 a8 d r show ?thesis
    by simp
qed


end
